theory Spec2Isabelle
  imports Main "HOL-Library.Word"
begin

section \<open>Python values used by the Federate Protocol client\<close>

text \<open>
  Python integers are unbounded and are modelled as \<open>int\<close>; \<open>bytes\<close> values are lists
  of 8-bit words.  Every exception the modelled code can raise is a value of \<open>error\<close>;
  \<open>RTIinternalError\<close> carries its message, and \<open>UserError\<close> is an exception raised by
  the user's federate ambassador.  \<open>NoAttributesProvided\<close> is the error kind the
  specification names for an empty update; no source raises it.
\<close>

type_synonym byte = "8 word"

datatype error =
    StructError
  | ValueError
  | IndexError
  | AttributeError
  | TypeError
  | OSError
  | KeyError
  | FedProMessageError
  | RTIinternalError string
  | NoAttributesProvided
  | UserError

subsection \<open>\<open>struct.pack\<close> and \<open>struct.unpack\<close> in network byte order\<close>

text \<open>
  The only format characters the sources use are \<open>I\<close> (unsigned, 4 bytes), \<open>Q\<close>
  (unsigned, 8 bytes) and \<open>Ns\<close> with \<open>N\<close> the length of the bytes argument.  With the
  \<open>>\<close> prefix there is no padding.  \<open>struct.pack\<close> raises \<open>struct.error\<close> when an
  integer does not fit its field; \<open>struct.unpack\<close> raises it when the buffer length
  differs from the size of the format.
\<close>

datatype pack_arg = I int | Q int | S "byte list"

datatype fmt = FI | FQ

fun be_bytes :: "nat \<Rightarrow> int \<Rightarrow> byte list" where
  "be_bytes 0 v = []"
| "be_bytes (Suc n) v = be_bytes n (v div 256) @ [word_of_int (v mod 256)]"

definition be_int :: "byte list \<Rightarrow> int" where
  "be_int bs = foldl (\<lambda>a b. a * 256 + uint b) 0 bs"

fun pack_one :: "pack_arg \<Rightarrow> error + byte list" where
  "pack_one (I v) = (if 0 \<le> v \<and> v < 2 ^ 32 then Inr (be_bytes 4 v) else Inl StructError)"
| "pack_one (Q v) = (if 0 \<le> v \<and> v < 2 ^ 64 then Inr (be_bytes 8 v) else Inl StructError)"
| "pack_one (S bs) = Inr bs"

fun struct_pack :: "pack_arg list \<Rightarrow> error + byte list" where
  "struct_pack [] = Inr []"
| "struct_pack (a # as) =
     (case pack_one a of
        Inl e \<Rightarrow> Inl e
      | Inr bs \<Rightarrow> (case struct_pack as of Inl e \<Rightarrow> Inl e | Inr rest \<Rightarrow> Inr (bs @ rest)))"

fun fmt_size :: "fmt \<Rightarrow> nat" where
  "fmt_size FI = 4"
| "fmt_size FQ = 8"

fun unpack_fields :: "fmt list \<Rightarrow> byte list \<Rightarrow> int list" where
  "unpack_fields [] bs = []"
| "unpack_fields (f # fs) bs =
     be_int (take (fmt_size f) bs) # unpack_fields fs (drop (fmt_size f) bs)"

definition struct_unpack :: "fmt list \<Rightarrow> byte list \<Rightarrow> error + int list" where
  "struct_unpack fs bs =
     (if length bs = sum_list (map fmt_size fs) then Inr (unpack_fields fs bs)
      else Inl StructError)"

section \<open>The message codec (libsrc/fedPro)\<close>

subsection \<open>fedProMessage.py\<close>

datatype MsgType =
    UNKNOWN
  | CTRL_NEW_SESSION
  | CTRL_NEW_SESSION_STATUS
  | CTRL_HEARTBEAT
  | CTRL_HEARTBEAT_RESPONSE
  | CTRL_TERMINATE_SESSION
  | CTRL_SESSION_TERMINATED
  | CTRL_RESUME_REQUEST
  | CTRL_RESUME_STATUS
  | HLA_CALL_REQUEST
  | HLA_CALL_RESPONSE
  | HLA_CALLBACK_REQUEST
  | HLA_CALLBACK_RESPONSE
  | INVALID

text \<open>\<open>int(member)\<close> of the enumeration.\<close>

fun MsgType_int :: "MsgType \<Rightarrow> int" where
  "MsgType_int UNKNOWN = 0"
| "MsgType_int CTRL_NEW_SESSION = 1"
| "MsgType_int CTRL_NEW_SESSION_STATUS = 2"
| "MsgType_int CTRL_HEARTBEAT = 3"
| "MsgType_int CTRL_HEARTBEAT_RESPONSE = 4"
| "MsgType_int CTRL_TERMINATE_SESSION = 6"
| "MsgType_int CTRL_SESSION_TERMINATED = 7"
| "MsgType_int CTRL_RESUME_REQUEST = 10"
| "MsgType_int CTRL_RESUME_STATUS = 11"
| "MsgType_int HLA_CALL_REQUEST = 20"
| "MsgType_int HLA_CALL_RESPONSE = 21"
| "MsgType_int HLA_CALLBACK_REQUEST = 22"
| "MsgType_int HLA_CALLBACK_RESPONSE = 23"
| "MsgType_int INVALID = 99"

text \<open>\<open>MsgType(n)\<close>: the member with value \<open>n\<close>, or \<open>ValueError\<close>.\<close>

definition MsgType_of :: "int \<Rightarrow> error + MsgType" where
  "MsgType_of n =
     (if n = 0 then Inr UNKNOWN
      else if n = 1 then Inr CTRL_NEW_SESSION
      else if n = 2 then Inr CTRL_NEW_SESSION_STATUS
      else if n = 3 then Inr CTRL_HEARTBEAT
      else if n = 4 then Inr CTRL_HEARTBEAT_RESPONSE
      else if n = 6 then Inr CTRL_TERMINATE_SESSION
      else if n = 7 then Inr CTRL_SESSION_TERMINATED
      else if n = 10 then Inr CTRL_RESUME_REQUEST
      else if n = 11 then Inr CTRL_RESUME_STATUS
      else if n = 20 then Inr HLA_CALL_REQUEST
      else if n = 21 then Inr HLA_CALL_RESPONSE
      else if n = 22 then Inr HLA_CALLBACK_REQUEST
      else if n = 23 then Inr HLA_CALLBACK_RESPONSE
      else if n = 99 then Inr INVALID
      else Inl ValueError)"

text \<open>
  The attributes of class \<open>FedProMessage\<close> (\<open>my_format\<close> is a constant of each class and
  is written out where it is used).
\<close>

record FedProMessage =
  my_msg_type :: MsgType
  my_msg_size :: int
  my_session_id :: int
  my_sequence_num :: int
  my_last_received_msg :: int
  my_payload :: "byte list"

text \<open>\<open>FedProMessage.__init__(msg_type, msg_size)\<close>.\<close>

definition FedProMessage_init :: "MsgType \<Rightarrow> int \<Rightarrow> FedProMessage" where
  "FedProMessage_init msg_type msg_size =
     \<lparr>my_msg_type = msg_type, my_msg_size = msg_size, my_session_id = 0,
      my_sequence_num = 0, my_last_received_msg = 0, my_payload = []\<rparr>"

text \<open>\<open>package_bytes\<close>: the format \<open>IIQQ\<close> with its member list.\<close>

definition package_bytes :: "'a FedProMessage_scheme \<Rightarrow> pack_arg list" where
  "package_bytes m =
     [I (my_msg_size m), I (my_sequence_num m), Q (my_session_id m),
      Q (MsgType_int (my_msg_type m))]"

text \<open>\<open>FedProMessage.to_bytes\<close>: \<open>struct.pack('>IIQQ', size, seq, session, int(type))\<close>.\<close>

definition to_bytes :: "'a FedProMessage_scheme \<Rightarrow> error + byte list" where
  "to_bytes m =
     struct_pack [I (my_msg_size m), I (my_sequence_num m), Q (my_session_id m),
                  Q (MsgType_int (my_msg_type m))]"

text \<open>
  \<open>FedProMessage.from_bytes(buffer)\<close>.  \<open>buffer\<close> is a list of byte segments:
  \<open>buffer[0]\<close> the four size bytes, \<open>buffer[1]\<close> the rest of the header followed by
  payload, further segments more payload.  Indexing a missing segment raises
  \<open>IndexError\<close>; slicing never raises.
\<close>

definition from_bytes :: "FedProMessage \<Rightarrow> byte list list \<Rightarrow> error + FedProMessage" where
  "from_bytes self buffer =
     (case buffer of
        [] \<Rightarrow> Inl IndexError
      | b0 # rest \<Rightarrow>
         (case struct_unpack [FI] b0 of
            Inl e \<Rightarrow> Inl e
          | Inr szs \<Rightarrow>
             (case rest of
                [] \<Rightarrow> Inl IndexError
              | b1 # segs \<Rightarrow>
                 (case struct_unpack [FI, FQ, FI, FI] (take 20 b1) of
                    Inl e \<Rightarrow> Inl e
                  | Inr byte_ins \<Rightarrow>
                     (case MsgType_of (byte_ins ! 3) of
                        Inl e \<Rightarrow> Inl e
                      | Inr t \<Rightarrow>
                         Inr (self\<lparr>my_msg_size := hd szs,
                                   my_sequence_num := byte_ins ! 0,
                                   my_session_id := byte_ins ! 1,
                                   my_last_received_msg := byte_ins ! 2,
                                   my_msg_type := t,
                                   my_payload :=
                                     (if hd szs > 24 then drop 20 b1 @ concat segs
                                      else my_payload self)\<rparr>))))))"

text \<open>
  \<open>MsgSocket.get_message\<close> fills its receive buffer with \<open>recv(4)\<close> and then
  \<open>recv(msg_length - 4)\<close> and hands the two segments to \<open>from_bytes\<close>; for a frame that
  arrives whole these are its first four bytes and the remainder.
\<close>

definition recv_segments :: "byte list \<Rightarrow> byte list list" where
  "recv_segments frame = [take 4 frame, drop 4 frame]"

subsection \<open>heartBeatMessage.py\<close>

text \<open>\<open>HeartbeatMessage.__init__\<close>; the class inherits \<open>to_bytes\<close> from the base class.\<close>

definition HeartbeatMessage_init :: FedProMessage where
  "HeartbeatMessage_init = FedProMessage_init CTRL_HEARTBEAT 24"

subsection \<open>newSessionMessage.py\<close>

record NewSessionMessage = FedProMessage +
  my_protocol_version :: int

text \<open>\<open>NewSessionMessage.__init__\<close>: type \<open>CTRL_NEW_SESSION\<close>, size 28, version 1.\<close>

definition NewSessionMessage_init :: NewSessionMessage where
  "NewSessionMessage_init =
     FedProMessage.extend (FedProMessage_init CTRL_NEW_SESSION 28)
       (NewSessionMessage.fields 1)"

text \<open>\<open>NewSessionMessage.to_bytes\<close>: the parent's packing list followed by \<open>I\<close> version.\<close>

definition NewSessionMessage_to_bytes :: "NewSessionMessage \<Rightarrow> error + byte list" where
  "NewSessionMessage_to_bytes m = struct_pack (package_bytes m @ [I (my_protocol_version m)])"

subsection \<open>callbackResponseMessage.py\<close>

text \<open>
  The protobuf classes (package \<open>FedProProtobuf\<close>) are generated code outside the
  sources.  A protobuf message object is modelled by the two observations the sources
  make of it: the field numbers \<open>ListFields()\<close> reports, in order, and the bytes
  \<open>SerializeToString()\<close> returns.
\<close>

record pb_message =
  ListFields :: "int list"
  SerializeToString :: "byte list"

record CallbackResponseMessage = FedProMessage +
  my_response_type :: int
  my_succeeded :: bool
  my_response_data :: pb_message

text \<open>
  \<open>set_response_data(succeeded)\<close>: \<open>my_response_data\<close> becomes a new
  \<open>CallbackResponse()\<close> object in both branches and no field of it is written; only
  \<open>my_response_type\<close> differs.  The value of \<open>CallbackResponse()\<close> is the parameter
  \<open>new_pb\<close>.
\<close>

definition set_response_data ::
    "pb_message \<Rightarrow> bool \<Rightarrow> CallbackResponseMessage \<Rightarrow> CallbackResponseMessage" where
  "set_response_data new_pb succeeded self =
     (if succeeded then self\<lparr>my_response_data := new_pb, my_response_type := 0\<rparr>
      else self\<lparr>my_response_data := new_pb, my_response_type := 1\<rparr>)"

text \<open>
  \<open>CallbackResponseMessage.__init__(sequence_num, succeeded)\<close>: a header of type
  \<open>HLA_CALLBACK_RESPONSE\<close> and size 24, then the sequence number and the response data.
\<close>

definition CallbackResponseMessage_init ::
    "pb_message \<Rightarrow> int \<Rightarrow> bool \<Rightarrow> CallbackResponseMessage" where
  "CallbackResponseMessage_init new_pb sequence_num succeeded =
     set_response_data new_pb succeeded
       ((FedProMessage.extend (FedProMessage_init HLA_CALLBACK_RESPONSE 24)
           (CallbackResponseMessage.fields 0 succeeded new_pb))
          \<lparr>my_sequence_num := sequence_num\<rparr>)"

text \<open>
  \<open>CallbackResponseMessage.to_bytes\<close>: format \<open>>IIQII\<close> followed by \<open>Ns\<close> for the
  \<open>N\<close> bytes of the serialised response data.
\<close>

definition CallbackResponseMessage_to_bytes ::
    "CallbackResponseMessage \<Rightarrow> error + byte list" where
  "CallbackResponseMessage_to_bytes m =
     struct_pack [I (my_msg_size m), I (my_sequence_num m), Q (my_session_id m),
                  I (my_last_received_msg m), I (MsgType_int (my_msg_type m)),
                  S (SerializeToString (my_response_data m))]"

subsection \<open>callRequestMessage.py\<close>

record CallRequestMessage = FedProMessage +
  my_request_type :: int
  my_request_data :: pb_message

text \<open>
  \<open>CallRequestMessage.__init__(request_data)\<close>: the request type is the number of the
  first populated field (\<open>ListFields()[0]\<close> raises \<open>IndexError\<close> when there is none) and
  the size is 24 plus the length of the serialised request.
\<close>

definition CallRequestMessage_init :: "pb_message \<Rightarrow> error + CallRequestMessage" where
  "CallRequestMessage_init request_data =
     (case ListFields request_data of
        [] \<Rightarrow> Inl IndexError
      | n # _ \<Rightarrow>
          Inr (FedProMessage.extend
                 (FedProMessage_init HLA_CALL_REQUEST
                    (24 + int (length (SerializeToString request_data))))
                 (CallRequestMessage.fields n request_data)))"

definition CallRequestMessage_to_bytes :: "CallRequestMessage \<Rightarrow> error + byte list" where
  "CallRequestMessage_to_bytes m =
     struct_pack [I (my_msg_size m), I (my_sequence_num m), Q (my_session_id m),
                  I (my_last_received_msg m), I (MsgType_int (my_msg_type m)),
                  S (SerializeToString (my_request_data m))]"

subsection \<open>Inbound messages: the subclasses built from a received envelope\<close>

datatype SessionStatus =
  UNSET | SUCCESS | UNSUPPORTED_PROTOCOL_VERSION | OUT_OF_RESOURCES | INTERNAL_ERROR

text \<open>\<open>SessionStatus(n)\<close>.\<close>

definition SessionStatus_of :: "int \<Rightarrow> error + SessionStatus" where
  "SessionStatus_of n =
     (if n = - 1 then Inr UNSET
      else if n = 0 then Inr SUCCESS
      else if n = 1 then Inr UNSUPPORTED_PROTOCOL_VERSION
      else if n = 2 then Inr OUT_OF_RESOURCES
      else if n = 99 then Inr INTERNAL_ERROR
      else Inl ValueError)"

text \<open>
  What the sources read from a parsed \<open>CallResponse\<close> or \<open>CallbackRequest\<close> protobuf: the
  number of its first populated field, the bytes of the \<open>result.data\<close> member of that
  field, and whether its \<open>attributeValues\<close> / \<open>parameterValues\<close> member lists a field
  (the wrappers of \<open>reflectAttributeValues\<close> and \<open>receiveInteraction\<close> index
  \<open>ListFields()[0]\<close> of it).
\<close>

record pb_parsed =
  first_field_number :: int
  result_data :: "byte list"
  values_listed :: bool

text \<open>
  One record stands for the four inbound subclasses.  \<open>my_hla_msg_type\<close> belongs to
  the call response and the callback request, \<open>my_response_buf\<close> to the former,
  \<open>my_request_buf\<close> to the latter, \<open>my_status\<close> to the session status.  A buffer that
  is \<open>None\<close> stands for the cases in which reading a field of it raises
  \<open>AttributeError\<close>: the attribute is \<open>None\<close>, is \<open>()\<close>, or does not exist.  The
  header fields are copied from the received envelope; its payload is carried along
  although only two of the subclasses copy it, since nothing reads it afterwards.
\<close>

record InboundMessage = FedProMessage +
  my_hla_msg_type :: int
  my_response_buf :: "pb_parsed option"
  my_request_buf :: "pb_parsed option"
  my_status :: SessionStatus

definition inbound ::
    "FedProMessage \<Rightarrow> int \<Rightarrow> pb_parsed option \<Rightarrow> pb_parsed option \<Rightarrow> SessionStatus
       \<Rightarrow> InboundMessage" where
  "inbound m hla response_buf request_buf st =
     FedProMessage.extend m (InboundMessage.fields hla response_buf request_buf st)"

text \<open>
  Logging a message object formats it with \<open>str\<close>.  \<open>__str__\<close> of the call response
  and of the callback request lists the fields of the buffer, which raises
  \<open>AttributeError\<close> when the buffer is missing; the class of an inbound message is the
  one \<open>msg_types\<close> names for its type.  The other classes format header fields only.
\<close>

definition str_raises :: "InboundMessage \<Rightarrow> bool" where
  "str_raises m =
     ((my_msg_type m = HLA_CALL_RESPONSE \<and> my_response_buf m = None)
      \<or> (my_msg_type m = HLA_CALLBACK_REQUEST \<and> my_request_buf m = None))"

text \<open>
  \<open>CallResponseMessage.__init__(instance)\<close>.  The payload is a 4-byte integer followed by
  the serialised \<open>CallResponse\<close>; \<open>parsed\<close> is what \<open>ParseFromString\<close> and
  \<open>ListFields()[0][0].number\<close> yield on it (an error when either raises).
\<close>

definition CallResponseMessage_init ::
    "FedProMessage \<Rightarrow> error + pb_parsed \<Rightarrow> error + InboundMessage" where
  "CallResponseMessage_init instance parsed =
     (if my_msg_type instance = INVALID \<or> my_msg_size instance = 0
      then Inr (inbound (FedProMessage_init HLA_CALL_RESPONSE 24) (- 1) None None UNSET)
      else if length (my_payload instance) \<ge> 4
      then (if be_int (take 4 (my_payload instance)) \<noteq> 0
            then (case parsed of
                    Inl e \<Rightarrow> Inl e
                  | Inr p \<Rightarrow> Inr (inbound instance (first_field_number p) (Some p) None UNSET))
            else Inr (inbound instance (- 1) None None UNSET))
      else Inr (inbound instance (- 1) None None UNSET))"

text \<open>
  \<open>CallbackRequestMessage.__init__(instance)\<close>: the whole payload is parsed (the test
  \<open>payload[0] != 0\<close> compares bytes with an integer and always holds).
\<close>

definition CallbackRequestMessage_init ::
    "FedProMessage \<Rightarrow> error + pb_parsed \<Rightarrow> error + InboundMessage" where
  "CallbackRequestMessage_init instance parsed =
     (if my_msg_type instance = INVALID \<or> my_msg_size instance = 0
      then Inr (inbound (FedProMessage_init HLA_CALLBACK_REQUEST 24) (- 1) None None UNSET)
      else if length (my_payload instance) \<ge> 4
      then (case parsed of
              Inl e \<Rightarrow> Inl e
            | Inr p \<Rightarrow> Inr (inbound instance (first_field_number p) None (Some p) UNSET))
      else Inr (inbound instance (- 1) None None UNSET))"

text \<open>\<open>NewSessionStatusMessage.__init__(instance)\<close>.\<close>

definition NewSessionStatusMessage_init :: "FedProMessage \<Rightarrow> error + InboundMessage" where
  "NewSessionStatusMessage_init instance =
     (if my_msg_size instance = 0
      then Inr (inbound (FedProMessage_init CTRL_NEW_SESSION_STATUS 28) (- 1) None None
                  INTERNAL_ERROR)
      else if length (my_payload instance) > 0
      then (case struct_unpack [FI] (my_payload instance) of
              Inl e \<Rightarrow> Inl e
            | Inr vs \<Rightarrow>
               (case SessionStatus_of (hd vs) of
                  Inl e \<Rightarrow> Inl e
                | Inr st \<Rightarrow> Inr (inbound instance (- 1) None None st)))
      else Inr (inbound instance (- 1) None None INTERNAL_ERROR))"

text \<open>\<open>HeartbeatResponseMessage.__init__(instance)\<close> with an instance: a copy of it.\<close>

definition HeartbeatResponseMessage_init :: "FedProMessage \<Rightarrow> InboundMessage" where
  "HeartbeatResponseMessage_init instance = inbound instance (- 1) None None UNSET"

section \<open>The message handler (libsrc/fedProWrapper/fedProMessageHandler.py)\<close>

subsection \<open>Results of effectful operations\<close>

text \<open>
  An operation on state \<open>'s\<close> returns a value, or raises an exception (the state at
  the raise is kept, since everything done before it stays done), or is \<open>Stuck\<close>: the
  description of the environment ended before the operation returned.
\<close>

datatype ('a, 's) res = Ret 'a 's | Raise error 's | Stuck

fun is_Ret :: "('a, 's) res \<Rightarrow> bool" where
  "is_Ret (Ret x s) = True"
| "is_Ret (Raise e s) = False"
| "is_Ret Stuck = False"

subsection \<open>Outbound messages\<close>

datatype outbound =
    NewSession NewSessionMessage
  | Heartbeat FedProMessage
  | CallRequest CallRequestMessage
  | CallbackResponse CallbackResponseMessage

text \<open>
  The header fields \<open>send_message\<close> writes into a request: the session id, the
  sequence number unless a callback response is being sent, and the last received
  message number.
\<close>

definition stamp ::
    "int \<Rightarrow> int option \<Rightarrow> int \<Rightarrow> 'a FedProMessage_scheme \<Rightarrow> 'a FedProMessage_scheme" where
  "stamp sid seq lastrcv m =
     (case seq of
        None \<Rightarrow> m\<lparr>my_session_id := sid, my_last_received_msg := lastrcv\<rparr>
      | Some n \<Rightarrow> m\<lparr>my_session_id := sid, my_sequence_num := n, my_last_received_msg := lastrcv\<rparr>)"

fun outbound_stamp :: "int \<Rightarrow> int option \<Rightarrow> int \<Rightarrow> outbound \<Rightarrow> outbound" where
  "outbound_stamp sid seq lastrcv (NewSession m) = NewSession (stamp sid seq lastrcv m)"
| "outbound_stamp sid seq lastrcv (Heartbeat m) = Heartbeat (stamp sid seq lastrcv m)"
| "outbound_stamp sid seq lastrcv (CallRequest m) = CallRequest (stamp sid seq lastrcv m)"
| "outbound_stamp sid seq lastrcv (CallbackResponse m) = CallbackResponse (stamp sid seq lastrcv m)"

text \<open>The \<open>to_bytes\<close> method of each class (\<open>HeartbeatMessage\<close> inherits the base one).\<close>

fun outbound_to_bytes :: "outbound \<Rightarrow> error + byte list" where
  "outbound_to_bytes (NewSession m) = NewSessionMessage_to_bytes m"
| "outbound_to_bytes (Heartbeat m) = to_bytes m"
| "outbound_to_bytes (CallRequest m) = CallRequestMessage_to_bytes m"
| "outbound_to_bytes (CallbackResponse m) = CallbackResponseMessage_to_bytes m"

fun outbound_seq :: "outbound \<Rightarrow> int" where
  "outbound_seq (NewSession m) = my_sequence_num m"
| "outbound_seq (Heartbeat m) = my_sequence_num m"
| "outbound_seq (CallRequest m) = my_sequence_num m"
| "outbound_seq (CallbackResponse m) = my_sequence_num m"

fun is_callback_response :: "outbound \<Rightarrow> bool" where
  "is_callback_response (CallbackResponse m) = True"
| "is_callback_response _ = False"

subsection \<open>State\<close>

text \<open>
  The methods of \<open>FederateAmbassadorFedPro\<close> that the handler's dispatch table maps
  callback field numbers to.
\<close>

datatype callback_method =
    connection_lost
  | report_federation_executions
  | report_federation_execution_members
  | report_federation_execution_does_not_exist
  | federate_resigned
  | object_name_reservation_failed
  | object_instance_name_reservation_succeeded
  | discover_object_instance
  | remove_object_instance
  | reflect_attribute_values
  | receive_interaction
  | unknown_callback

text \<open>
  \<open>my_expected_response_type\<close> holds either a \<open>MsgType\<close> member or a plain integer (a
  field number of \<open>CallResponse\<close>).  \<open>==\<close> compares the integer values; \<open>is\<close> compares
  objects, so an integer is never \<open>MsgType.UNKNOWN\<close>.
\<close>

datatype expected = ExpMsgType MsgType | ExpTag int

fun expected_int :: "expected \<Rightarrow> int" where
  "expected_int (ExpMsgType t) = MsgType_int t"
| "expected_int (ExpTag n) = n"

text \<open>
  \<open>a is b\<close> on two integers computed at run time: CPython shares the objects of the
  integers from -5 to 256 and no others.
\<close>

definition py_is :: "int \<Rightarrow> int \<Rightarrow> bool" where
  "py_is a b = (a = b \<and> - 5 \<le> a \<and> a \<le> 256)"

text \<open>
  The attribute \<open>federate_ambassador_handler\<close> is only annotated by \<open>__init__\<close>; it
  exists once \<open>initializeSession\<close> has assigned it.
\<close>

datatype handler_slot = Unset | IsNone | Bound

text \<open>
  The attributes of \<open>FedProMsgHandler\<close> (the heartbeat timers, which only hold clock
  readings, are left out).  \<open>handler_session_id\<close> and \<open>handler_sequence_num\<close> are the
  handler's \<open>my_session_id\<close> and \<open>my_sequence_num\<close>; \<open>my_socket_open\<close> says that
  \<open>my_socket.my_socket\<close> is not \<open>None\<close>.
\<close>

record FedProMsgHandler =
  federate_ambassador_handler :: handler_slot
  my_socket_open :: bool
  handler_session_id :: int
  handler_sequence_num :: int
  my_session_status :: SessionStatus
  my_last_received_message_number :: int
  my_callback_functions :: "int \<rightharpoonup> callback_method"
  my_enable_callback_requests :: bool
  my_is_connection_ok :: bool
  my_poll_result :: int
  my_queue_callback_requests :: bool
  my_expected_response_request_number :: int
  my_expected_response_type :: expected
  my_callback_request_queue :: "InboundMessage list"
  my_fedPro_response :: InboundMessage

text \<open>\<open>FedProMsgHandler.__init__\<close>.\<close>

definition FedProMsgHandler_init :: FedProMsgHandler where
  "FedProMsgHandler_init =
     \<lparr>federate_ambassador_handler = Unset, my_socket_open = False,
      handler_session_id = 0, handler_sequence_num = 0, my_session_status = UNSET,
      my_last_received_message_number = 0, my_callback_functions = Map.empty,
      my_enable_callback_requests = True, my_is_connection_ok = False,
      my_poll_result = - 2, my_queue_callback_requests = True,
      my_expected_response_request_number = 0,
      my_expected_response_type = ExpMsgType UNKNOWN,
      my_callback_request_queue = [],
      my_fedPro_response =
        inbound (FedProMessage_init CTRL_NEW_SESSION_STATUS 28) (- 1) None None
          INTERNAL_ERROR\<rparr>"

text \<open>
  What lies outside the handler: the frames handed to the socket, in order; the
  \<open>FederateAmbassador\<close> methods invoked, in order, each with the sequence number of the
  callback; and the outcomes of the invocations still to come (\<open>None\<close> a normal return,
  \<open>Some e\<close> a raise; an exhausted list means normal returns).
\<close>

record world =
  outbox :: "outbound list"
  amb_calls :: "(callback_method \<times> int) list"
  amb_script :: "error option list"

text \<open>
  One pass of the loop of \<open>read_and_process\<close> sees one of: the deadline has passed;
  \<open>get_message\<close> timed out and returned an \<open>INVALID\<close> message; \<open>get_message\<close> raised;
  or \<open>get_message\<close> returned an envelope, given with what the protobuf layer makes of
  its payload.  (\<open>my_socket.my_msg_buffer\<close> is never appended to anywhere in the
  sources, so messages only come from \<open>get_message\<close>.  A frame whose length field is
  below 24 comes back with the integer -99 for a type, which is no member of \<open>MsgType\<close>;
  such frames are not among the events.)
\<close>

datatype event =
    Expired
  | Timeout
  | GetMessageRaises error
  | Received FedProMessage "error + pb_parsed"

text \<open>
  Constants of the generated protobuf classes and the request builders of the facade, all
  outside the sources, are parameters.
\<close>

record schema =
  EXCEPTIONDATA_FIELD_NUMBER :: int
  GETOBJECTCLASSHANDLERESPONSE_FIELD_NUMBER :: int
  UPDATEATTRIBUTEVALUESRESPONSE_FIELD_NUMBER :: int
  callback_field_numbers :: "callback_method \<Rightarrow> int"
  new_CallbackResponse :: pb_message
  getObjectClassHandleRequest :: "string \<Rightarrow> pb_message"
  updateAttributeValuesRequest ::
    "byte list \<Rightarrow> (byte list \<times> byte list) list \<Rightarrow> byte list \<Rightarrow> pb_message"

subsection \<open>Sending\<close>

definition is_connected :: "FedProMsgHandler \<Rightarrow> bool" where
  "is_connected h = (my_is_connection_ok h \<and> my_socket_open h)"

text \<open>
  \<open>send_message(request, sending_callback_response)\<close>.  \<open>MsgSocket.send_message\<close>
  serialises the request (a \<open>struct.error\<close> propagates) and returns \<open>True\<close>, which
  is the integer 1; the write itself is taken to succeed.
\<close>

definition send_message ::
    "FedProMsgHandler \<Rightarrow> world \<Rightarrow> outbound \<Rightarrow> bool \<Rightarrow> (int, FedProMsgHandler \<times> world) res" where
  "send_message h w request sending_callback_response =
     (let request' =
            outbound_stamp (handler_session_id h)
              (if \<not> sending_callback_response then Some (handler_sequence_num h) else None)
              (my_last_received_message_number h) request
      in if is_connected h
         then (case outbound_to_bytes request' of
                 Inl e \<Rightarrow> Raise e (h, w)
               | Inr frame \<Rightarrow> Ret 1 (h, w\<lparr>outbox := outbox w @ [request']\<rparr>))
         else Ret (- 1) (h, w))"

text \<open>\<open>send_callback_response(sequence_number, succeded)\<close>.\<close>

definition send_callback_response ::
    "schema \<Rightarrow> FedProMsgHandler \<Rightarrow> world \<Rightarrow> int \<Rightarrow> bool \<Rightarrow> (unit, FedProMsgHandler \<times> world) res" where
  "send_callback_response sc h w sequence_number succeded =
     (case send_message h w
             (CallbackResponse
                (CallbackResponseMessage_init (new_CallbackResponse sc) sequence_number succeded))
             True of
        Ret n s \<Rightarrow> Ret () s
      | Raise e s \<Rightarrow> Raise e s
      | Stuck \<Rightarrow> Stuck)"

subsection \<open>Callback wrappers (libsrc/fedProWrapper/federateAmbassadorFedPro.py)\<close>

text \<open>\<open>add_callback_request_callback\<close> and the registrations of \<open>FederateAmbassadorFedPro.__init__\<close>.\<close>

definition add_callback_request_callback ::
    "FedProMsgHandler \<Rightarrow> int \<Rightarrow> callback_method \<Rightarrow> FedProMsgHandler" where
  "add_callback_request_callback h request_field_number callback_request_method =
     h\<lparr>my_callback_functions :=
         (my_callback_functions h)(request_field_number \<mapsto> callback_request_method)\<rparr>"

definition registered_methods :: "callback_method list" where
  "registered_methods =
     [connection_lost, report_federation_executions, report_federation_execution_members,
      report_federation_execution_does_not_exist, federate_resigned,
      object_name_reservation_failed, object_instance_name_reservation_succeeded,
      discover_object_instance, remove_object_instance, reflect_attribute_values,
      receive_interaction]"

definition FederateAmbassadorFedPro_init :: "schema \<Rightarrow> FedProMsgHandler \<Rightarrow> FedProMsgHandler" where
  "FederateAmbassadorFedPro_init sc h =
     add_callback_request_callback
       (foldl (\<lambda>h' cm. add_callback_request_callback h' (callback_field_numbers sc cm) cm)
          h registered_methods)
       (- 99) unknown_callback"

text \<open>
  Calling a method of the user's \<open>FederateAmbassador\<close>: the call is logged and its
  outcome is the next one of the script.
\<close>

definition invoke_ambassador :: "world \<Rightarrow> callback_method \<Rightarrow> int \<Rightarrow> error option \<times> world" where
  "invoke_ambassador w cm sequence_number =
     (let w' = w\<lparr>amb_calls := amb_calls w @ [(cm, sequence_number)]\<rparr>
      in case amb_script w of
           [] \<Rightarrow> (None, w')
         | r # rs \<Rightarrow> (r, w'\<lparr>amb_script := rs\<rparr>))"

definition indexes_values :: "callback_method \<Rightarrow> bool" where
  "indexes_values cm = (cm = reflect_attribute_values \<or> cm = receive_interaction)"

text \<open>
  The ten wrappers whose body is \<open>try: decode; call the ambassador;
  send_callback_response(seq, True) except Exception: send_callback_response(seq,
  False)\<close>.  Decoding raises when the buffer is missing, or when the values member lists
  no field in the two wrappers that index it.
\<close>

definition guarded_callback ::
    "schema \<Rightarrow> FedProMsgHandler \<Rightarrow> world \<Rightarrow> callback_method \<Rightarrow> pb_parsed option \<Rightarrow> int
       \<Rightarrow> (unit, FedProMsgHandler \<times> world) res" where
  "guarded_callback sc h w cm message sequence_number =
     (case message of
        None \<Rightarrow> send_callback_response sc h w sequence_number False
      | Some p \<Rightarrow>
         (if indexes_values cm \<and> \<not> values_listed p
          then send_callback_response sc h w sequence_number False
          else (case invoke_ambassador w cm sequence_number of
                  (Some e, w') \<Rightarrow> send_callback_response sc h w' sequence_number False
                | (None, w') \<Rightarrow>
                   (case send_callback_response sc h w' sequence_number True of
                      Raise e (h'', w'') \<Rightarrow> send_callback_response sc h'' w'' sequence_number False
                    | r \<Rightarrow> r))))"

text \<open>
  The method a callback is dispatched to.  \<open>connection_lost\<close> has no \<open>try\<close>;
  \<open>report_federation_execution_members\<close> reads its sub-message before the \<open>try\<close>;
  \<open>unknown_callback\<close> reads \<open>my_hla_msg_type\<close> of the protobuf buffer it is handed, which
  has no such attribute, before it would send its failure response.
\<close>

definition run_callback ::
    "schema \<Rightarrow> FedProMsgHandler \<Rightarrow> world \<Rightarrow> callback_method \<Rightarrow> pb_parsed option \<Rightarrow> int
       \<Rightarrow> (unit, FedProMsgHandler \<times> world) res" where
  "run_callback sc h w cm message sequence_number =
     (if cm = connection_lost
      then (case message of
              None \<Rightarrow> Raise AttributeError (h, w)
            | Some p \<Rightarrow>
               (case invoke_ambassador w connection_lost sequence_number of
                  (Some e, w') \<Rightarrow> Raise e (h, w')
                | (None, w') \<Rightarrow> send_callback_response sc h w' sequence_number True))
      else if cm = unknown_callback then Raise AttributeError (h, w)
      else if cm = report_federation_execution_members \<and> message = None
      then Raise AttributeError (h, w)
      else guarded_callback sc h w cm message sequence_number)"

subsection \<open>Processing inbound messages\<close>

text \<open>\<open>handle_callback_request(message)\<close>: calling a missing handler raises \<open>TypeError\<close>.\<close>

definition handle_callback_request ::
    "schema \<Rightarrow> FedProMsgHandler \<Rightarrow> world \<Rightarrow> InboundMessage \<Rightarrow> (unit, FedProMsgHandler \<times> world) res" where
  "handle_callback_request sc h w message =
     (case my_callback_functions h (my_hla_msg_type message) of
        Some cm \<Rightarrow> run_callback sc h w cm (my_request_buf message) (my_sequence_num message)
      | None \<Rightarrow>
         (case my_callback_functions h (- 99) of
            Some cm \<Rightarrow> run_callback sc h w cm (my_request_buf message) (my_sequence_num message)
          | None \<Rightarrow> Raise TypeError (h, w)))"

text \<open>
  \<open>process_callback_request(callbackrequest)\<close>.  Its \<open>except\<close> clause logs and raises
  again, and the branch on the two fatal variants only logs.  Without a federate
  ambassador the request is formatted for the log before \<open>RTIinternalError\<close> is raised,
  and formatting a callback request whose buffer is missing raises \<open>AttributeError\<close>.
\<close>

definition process_callback_request ::
    "schema \<Rightarrow> FedProMsgHandler \<Rightarrow> world \<Rightarrow> InboundMessage \<Rightarrow> (bool, FedProMsgHandler \<times> world) res" where
  "process_callback_request sc h w callbackrequest =
     (let h1 = h\<lparr>my_fedPro_response := callbackrequest\<rparr>
      in if my_queue_callback_requests h1
         then Ret False
                (h1\<lparr>my_callback_request_queue := my_callback_request_queue h1 @ [callbackrequest],
                    my_expected_response_request_number := my_sequence_num callbackrequest + 1\<rparr>,
                 w)
         else (case federate_ambassador_handler h1 of
                 Unset \<Rightarrow> Raise AttributeError (h1, w)
               | IsNone \<Rightarrow>
                   (if my_request_buf callbackrequest = None then Raise AttributeError (h1, w)
                    else Raise
                           (RTIinternalError
                              ''No federate ambassador to process callback request'')
                           (h1, w))
               | Bound \<Rightarrow>
                  (case handle_callback_request sc
                          (h1\<lparr>handler_sequence_num := my_sequence_num callbackrequest\<rparr>) w
                          callbackrequest of
                     Ret u s \<Rightarrow> Ret True s
                   | Raise e s \<Rightarrow> Raise e s
                   | Stuck \<Rightarrow> Stuck)))"

text \<open>
  \<open>process_call_response(callresponse)\<close>.  The result \<open>False\<close> also stands for the
  \<open>None\<close> the exception-data branch falls through with: both leave the read loop
  running.
\<close>

definition process_call_response ::
    "schema \<Rightarrow> FedProMsgHandler \<Rightarrow> world \<Rightarrow> InboundMessage \<Rightarrow> (bool, FedProMsgHandler \<times> world) res" where
  "process_call_response sc h w callresponse =
     (if my_msg_type callresponse \<noteq> HLA_CALL_RESPONSE then Raise FedProMessageError (h, w)
      else
        let h1 = h\<lparr>my_fedPro_response := callresponse\<rparr>
        in if my_hla_msg_type callresponse > 1
              \<and> expected_int (my_expected_response_type h1) = my_hla_msg_type callresponse
              \<and> my_expected_response_request_number h1 = my_sequence_num callresponse
           then Ret True
                  (h1\<lparr>my_expected_response_request_number := 0,
                      my_expected_response_type := ExpMsgType UNKNOWN\<rparr>, w)
           else if my_expected_response_type h1 = ExpMsgType UNKNOWN
           then Raise FedProMessageError (h1, w)
           else if py_is (my_hla_msg_type callresponse) (EXCEPTIONDATA_FIELD_NUMBER sc)
           then (if py_is (my_sequence_num callresponse) (my_expected_response_request_number h1)
                 then Ret False
                        (h1\<lparr>my_expected_response_type :=
                              ExpTag (EXCEPTIONDATA_FIELD_NUMBER sc)\<rparr>, w)
                 else Ret False (h1, w))
           else Ret False (h1, w))"

text \<open>\<open>process_new_session_status(newsession)\<close>.\<close>

definition process_new_session_status ::
    "FedProMsgHandler \<Rightarrow> world \<Rightarrow> InboundMessage \<Rightarrow> (bool, FedProMsgHandler \<times> world) res" where
  "process_new_session_status h w newsession =
     (let h1 = h\<lparr>my_fedPro_response := newsession,
                  handler_session_id := my_session_id newsession,
                  my_session_status := my_status newsession\<rparr>
      in if expected_int (my_expected_response_type h1) = MsgType_int (my_msg_type newsession)
            \<and> my_expected_response_request_number h1 = my_sequence_num newsession
         then Ret True
                (h1\<lparr>my_expected_response_request_number := 0,
                    my_expected_response_type := ExpMsgType UNKNOWN\<rparr>, w)
         else if my_expected_response_type h1 = ExpMsgType UNKNOWN
         then Raise FedProMessageError (h1, w)
         else Ret False (h1, w))"

text \<open>\<open>process_heartbeat_response(heartbeat)\<close>; it returns \<open>None\<close>.\<close>

definition process_heartbeat_response ::
    "FedProMsgHandler \<Rightarrow> world \<Rightarrow> InboundMessage \<Rightarrow> (bool, FedProMsgHandler \<times> world) res" where
  "process_heartbeat_response h w heartbeat =
     (let h1 = h\<lparr>my_fedPro_response := heartbeat\<rparr>
      in if expected_int (my_expected_response_type h1) = MsgType_int (my_msg_type heartbeat)
            \<and> my_expected_response_request_number h1 = my_sequence_num heartbeat
         then Ret False
                (h1\<lparr>my_expected_response_request_number := 0,
                    my_expected_response_type := ExpMsgType UNKNOWN\<rparr>, w)
         else Ret False (h1, w))"

text \<open>
  The body of the loop of \<open>read_and_process\<close> for a valid envelope, up to the value of
  \<open>got_message\<close>: look the type up in \<open>msg_types\<close>, build the subclass, record the
  last received number, call the handler.  For \<open>CTRL_SESSION_TERMINATED\<close> the table
  names the base class, whose constructor takes the envelope for a message type and
  leaves the sequence number 0; the next lookup in \<open>msg_types\<close>, keyed by that object,
  raises \<open>KeyError\<close>.
\<close>

definition handle_message ::
    "schema \<Rightarrow> FedProMsgHandler \<Rightarrow> world \<Rightarrow> FedProMessage \<Rightarrow> error + pb_parsed
       \<Rightarrow> (bool, FedProMsgHandler \<times> world) res" where
  "handle_message sc h w message parsed =
     (if my_msg_type message = CTRL_NEW_SESSION_STATUS
      then (case NewSessionStatusMessage_init message of
              Inl e \<Rightarrow> Raise e (h, w)
            | Inr m \<Rightarrow>
                process_new_session_status
                  (h\<lparr>my_last_received_message_number := my_sequence_num m\<rparr>) w m)
      else if my_msg_type message = CTRL_HEARTBEAT_RESPONSE
      then process_heartbeat_response
             (h\<lparr>my_last_received_message_number := my_sequence_num message\<rparr>) w
             (HeartbeatResponseMessage_init message)
      else if my_msg_type message = CTRL_SESSION_TERMINATED
      then Raise KeyError (h\<lparr>my_last_received_message_number := 0\<rparr>, w)
      else if my_msg_type message = HLA_CALL_RESPONSE
      then (case CallResponseMessage_init message parsed of
              Inl e \<Rightarrow> Raise e (h, w)
            | Inr m \<Rightarrow>
                process_call_response sc
                  (h\<lparr>my_last_received_message_number := my_sequence_num m\<rparr>) w m)
      else if my_msg_type message = HLA_CALLBACK_REQUEST
      then (case CallbackRequestMessage_init message parsed of
              Inl e \<Rightarrow> Raise e (h, w)
            | Inr m \<Rightarrow>
                process_callback_request sc
                  (h\<lparr>my_last_received_message_number := my_sequence_num m\<rparr>) w m)
      else Raise FedProMessageError (h, w))"

text \<open>
  The loop of \<open>read_and_process\<close>, entered with the handler connected.  With
  \<open>min_time = 0\<close>, as every caller passes, the loop breaks exactly when the deadline has
  passed.  After a handled message the sequence number and the count go up by one.
\<close>

fun read_loop ::
    "schema \<Rightarrow> FedProMsgHandler \<Rightarrow> world \<Rightarrow> event list \<Rightarrow> int
       \<Rightarrow> (int, FedProMsgHandler \<times> world \<times> event list) res" where
  "read_loop sc h w [] message_count = Stuck"
| "read_loop sc h w (Expired # es) message_count = Ret message_count (h, w, es)"
| "read_loop sc h w (Timeout # es) message_count = read_loop sc h w es message_count"
| "read_loop sc h w (GetMessageRaises e # es) message_count = Raise e (h, w, es)"
| "read_loop sc h w (Received message parsed # es) message_count =
     (if my_msg_type message \<noteq> INVALID \<and> my_msg_size message \<ge> 0
      then (case handle_message sc h w message parsed of
              Stuck \<Rightarrow> Stuck
            | Raise e (h', w') \<Rightarrow> Raise e (h', w', es)
            | Ret got_message (h', w') \<Rightarrow>
               (let h'' = h'\<lparr>handler_sequence_num := handler_sequence_num h' + 1\<rparr>
                in if is_connected h'' \<and> \<not> got_message
                   then read_loop sc h'' w' es (message_count + 1)
                   else Ret (message_count + 1) (h'', w', es)))
      else read_loop sc h w es message_count)"

text \<open>
  \<open>read_and_process\<close>: -1 when not connected, and -1 when the loop raises \<open>OSError\<close>
  (\<open>ConnectionError\<close> is one) or \<open>AttributeError\<close>; any other exception propagates.
\<close>

definition read_and_process ::
    "schema \<Rightarrow> FedProMsgHandler \<Rightarrow> world \<Rightarrow> event list
       \<Rightarrow> (int, FedProMsgHandler \<times> world \<times> event list) res" where
  "read_and_process sc h w es =
     (if \<not> is_connected h then Ret (- 1) (h, w, es)
      else (case read_loop sc h w es 0 of
              Raise e s \<Rightarrow> (if e = OSError \<or> e = AttributeError then Ret (- 1) s else Raise e s)
            | r \<Rightarrow> r))"

text \<open>
  Every return of \<open>read_and_process\<close> with a count of at least 0 has passed through
  the loop, which takes one event per pass; this is what makes the polling loop below
  terminate.
\<close>

lemma read_loop_shorter:
  "read_loop sc h w es c = Ret n (h', w', es') \<Longrightarrow> length es' < length es"
proof (induction es arbitrary: h w c)
  case Nil
  then show ?case by simp
next
  case (Cons e es)
  have step: "\<And>h1 w1 c1. read_loop sc h1 w1 es c1 = Ret n (h', w', es')
      \<Longrightarrow> length es' < Suc (length es)"
    using Cons.IH by (blast intro: less_SucI)
  show ?case
  proof (cases e)
    case (Received message parsed)
    with Cons.prems step show ?thesis
      by (auto split: if_splits res.splits prod.splits simp: Let_def)
  qed (use Cons.prems step in auto)
qed

lemma read_and_process_shorter:
  "read_and_process sc h w es = Ret n (h', w', es') \<Longrightarrow> 0 \<le> n \<Longrightarrow> length es' < length es"
  by (auto simp: read_and_process_def split: if_splits res.splits dest: read_loop_shorter)

subsection \<open>Waiting for a response\<close>

text \<open>
  The test \<open>got_response\<close> of \<open>poll_for_call_response\<close>: the expected type is
  \<open>MsgType.UNKNOWN\<close> or is the exception-data field number.
\<close>

definition got_response :: "schema \<Rightarrow> FedProMsgHandler \<Rightarrow> bool" where
  "got_response sc h =
     (my_expected_response_type h = ExpMsgType UNKNOWN
      \<or> my_expected_response_type h = ExpTag (EXCEPTIONDATA_FIELD_NUMBER sc))"

text \<open>
  The reads of \<open>poll_for_call_response\<close>: \<open>read_and_process\<close> is called until it
  returns a negative count or \<open>got_response\<close> holds.  The value is \<open>read_ok\<close>.
\<close>

function poll_loop ::
    "schema \<Rightarrow> FedProMsgHandler \<Rightarrow> world \<Rightarrow> event list
       \<Rightarrow> (bool, FedProMsgHandler \<times> world \<times> event list) res" where
  "poll_loop sc h w es =
     (case read_and_process sc h w es of
        Stuck \<Rightarrow> Stuck
      | Raise e s \<Rightarrow> Raise e s
      | Ret n (h', w', es') \<Rightarrow>
          (if n \<ge> 0 \<and> \<not> got_response sc h' then poll_loop sc h' w' es'
           else Ret (n \<ge> 0) (h', w', es')))"
  by pat_completeness auto
termination
  by (relation "measure (\<lambda>(sc, h, w, es). length es)")
     (auto dest: read_and_process_shorter)

declare poll_loop.simps [simp del]

text \<open>
  \<open>poll_for_call_response(max_wait, response)\<close>: the expected request number is the
  last received message number plus one.
\<close>

definition poll_for_call_response ::
    "schema \<Rightarrow> FedProMsgHandler \<Rightarrow> world \<Rightarrow> event list \<Rightarrow> expected
       \<Rightarrow> (int, FedProMsgHandler \<times> world \<times> event list) res" where
  "poll_for_call_response sc h w es response =
     (case poll_loop sc
             (h\<lparr>my_expected_response_request_number := my_last_received_message_number h + 1,
                my_expected_response_type := response\<rparr>) w es of
        Stuck \<Rightarrow> Stuck
      | Raise e s \<Rightarrow> Raise e s
      | Ret read_ok (h', w', es') \<Rightarrow>
         (let poll_result =
                (if my_expected_response_type h' = ExpTag (EXCEPTIONDATA_FIELD_NUMBER sc)
                 then - 1
                 else if got_response sc h' then 1 else 0)
          in Ret poll_result
               (h'\<lparr>my_poll_result := poll_result,
                   my_expected_response_request_number := 0,
                   my_expected_response_type := ExpMsgType UNKNOWN\<rparr>, w', es')))"

text \<open>\<open>send_and_wait(request, expected_response_type)\<close>.\<close>

definition send_and_wait ::
    "schema \<Rightarrow> FedProMsgHandler \<Rightarrow> world \<Rightarrow> event list \<Rightarrow> outbound \<Rightarrow> expected
       \<Rightarrow> (bool, FedProMsgHandler \<times> world \<times> event list) res" where
  "send_and_wait sc h w es request expected_response_type =
     (case send_message h w request False of
        Stuck \<Rightarrow> Stuck
      | Raise e (h1, w1) \<Rightarrow> Raise e (h1, w1, es)
      | Ret sent (h1, w1) \<Rightarrow>
         (if sent = - 1 then Raise FedProMessageError (h1, w1, es)
          else (case poll_for_call_response sc h1 w1 es expected_response_type of
                  Stuck \<Rightarrow> Stuck
                | Raise e s \<Rightarrow> Raise e s
                | Ret poll_result s \<Rightarrow> Ret (poll_result > 0) s)))"

subsection \<open>The pending expectation\<close>

text \<open>
  The sequence number a wait expects, read off the handler: the last received number at
  the start of the wait plus one while no callback request has been queued since, and
  otherwise the sequence number of the last queued callback request plus one
  (\<open>process_callback_request\<close> re-bases it).  \<open>pending\<close> and \<open>accepted\<close> are the two
  phases of a wait that started with queue \<open>q0\<close> and last received number \<open>l0\<close>.
\<close>

definition expected_seq :: "InboundMessage list \<Rightarrow> int \<Rightarrow> FedProMsgHandler \<Rightarrow> int" where
  "expected_seq q0 l0 g =
     (if my_callback_request_queue g = q0 then l0 + 1
      else my_sequence_num (last (my_callback_request_queue g)) + 1)"

definition pending ::
    "schema \<Rightarrow> expected \<Rightarrow> InboundMessage list \<Rightarrow> int \<Rightarrow> FedProMsgHandler \<Rightarrow> bool" where
  "pending sc resp q0 l0 g =
     (my_queue_callback_requests g
      \<and> (\<exists>ext. my_callback_request_queue g = q0 @ ext)
      \<and> my_expected_response_request_number g = expected_seq q0 l0 g
      \<and> (my_expected_response_type g = resp
          \<or> my_expected_response_type g = ExpTag (EXCEPTIONDATA_FIELD_NUMBER sc)))"

definition accepted :: "InboundMessage list \<Rightarrow> int \<Rightarrow> FedProMsgHandler \<Rightarrow> bool" where
  "accepted q0 l0 g =
     (my_expected_response_type g = ExpMsgType UNKNOWN
      \<and> my_sequence_num (my_fedPro_response g) = expected_seq q0 l0 g)"

section \<open>The ambassador facade (libsrc/fedProWrapper/rtiAmbassadorFedPro.py)\<close>

text \<open>
  The attributes of \<open>RtiAmbassadorFedPro\<close> the modelled methods use.
  \<open>rti_is_connection_ok\<close> is the facade's own \<open>my_is_connection_ok\<close>.  The two attribute
  maps live in the \<open>FederateData\<close> of the user's federate ambassador, reached through
  the handler's \<open>federate_ambassador_handler\<close>.
\<close>

record RtiAmbassadorFedPro =
  my_msg_handler :: FedProMsgHandler
  rti_is_connection_ok :: bool
  my_obj_name_handles :: "string \<rightharpoonup> byte list"
  my_obj_handle_names :: "byte list \<rightharpoonup> string"
  my_attr_handle_names :: "byte list \<rightharpoonup> (byte list \<rightharpoonup> string)"
  my_attr_name_handles :: "byte list \<rightharpoonup> (string \<rightharpoonup> byte list)"

text \<open>\<open>RtiAmbassadorFedPro.__init__\<close>.\<close>

definition RtiAmbassadorFedPro_init :: RtiAmbassadorFedPro where
  "RtiAmbassadorFedPro_init =
     \<lparr>my_msg_handler = FedProMsgHandler_init, rti_is_connection_ok = False,
      my_obj_name_handles = Map.empty, my_obj_handle_names = Map.empty,
      my_attr_handle_names = Map.empty, my_attr_name_handles = Map.empty\<rparr>"

text \<open>
  \<open>get_object_class_handle(object_class_name)\<close>.  The accessor
  \<open>getObjectClassHandleResponse.result.data\<close> yields the data of that field when it is
  the populated one and the empty default otherwise.  On failure the last response is
  logged before \<open>RTIinternalError\<close> is raised.
\<close>

definition get_object_class_handle ::
    "schema \<Rightarrow> RtiAmbassadorFedPro \<Rightarrow> world \<Rightarrow> event list \<Rightarrow> string
       \<Rightarrow> (byte list, RtiAmbassadorFedPro \<times> world \<times> event list) res" where
  "get_object_class_handle sc self w es object_class_name =
     (case my_obj_name_handles self object_class_name of
        Some object_class_handle \<Rightarrow> Ret object_class_handle (self, w, es)
      | None \<Rightarrow>
         (case CallRequestMessage_init (getObjectClassHandleRequest sc object_class_name) of
            Inl e \<Rightarrow> Raise e (self, w, es)
          | Inr call_request_msg \<Rightarrow>
             (case send_and_wait sc (my_msg_handler self) w es (CallRequest call_request_msg)
                     (ExpTag (GETOBJECTCLASSHANDLERESPONSE_FIELD_NUMBER sc)) of
                Stuck \<Rightarrow> Stuck
              | Raise e (h', w', es') \<Rightarrow> Raise e (self\<lparr>my_msg_handler := h'\<rparr>, w', es')
              | Ret ok (h', w', es') \<Rightarrow>
                 (let self1 = self\<lparr>my_msg_handler := h'\<rparr>
                  in if ok
                     then (case my_response_buf (my_fedPro_response h') of
                             None \<Rightarrow> Raise AttributeError (self1, w', es')
                           | Some p \<Rightarrow>
                              (let object_class_handle =
                                     (if first_field_number p =
                                           GETOBJECTCLASSHANDLERESPONSE_FIELD_NUMBER sc
                                      then result_data p else []);
                                   self2 = self1
                                     \<lparr>my_obj_name_handles :=
                                        (my_obj_name_handles self1)
                                          (object_class_name \<mapsto> object_class_handle),
                                      my_obj_handle_names :=
                                        (my_obj_handle_names self1)
                                          (object_class_handle \<mapsto> object_class_name)\<rparr>
                               in if federate_ambassador_handler h' = Bound
                                  then Ret object_class_handle
                                         (self2\<lparr>my_attr_handle_names :=
                                                   (my_attr_handle_names self2)
                                                     (object_class_handle \<mapsto> Map.empty),
                                                 my_attr_name_handles :=
                                                   (my_attr_name_handles self2)
                                                     (object_class_handle \<mapsto> Map.empty)\<rparr>,
                                          w', es')
                                  else Raise AttributeError (self2, w', es')))
                     else if str_raises (my_fedPro_response h')
                     then Raise AttributeError (self1, w', es')
                     else Raise (RTIinternalError ''Failed to get object class handle'')
                            (self1, w', es')))))"

text \<open>
  \<open>update_attribute_values(object_instance_handle, attribute_values,
  user_supplied_tag)\<close>; the dictionary is a list of pairs, empty when the dictionary is.
  On failure the last response is logged before \<open>RTIinternalError\<close> is raised.
\<close>

definition update_attribute_values ::
    "schema \<Rightarrow> RtiAmbassadorFedPro \<Rightarrow> world \<Rightarrow> event list \<Rightarrow> byte list
       \<Rightarrow> (byte list \<times> byte list) list \<Rightarrow> byte list
       \<Rightarrow> (unit, RtiAmbassadorFedPro \<times> world \<times> event list) res" where
  "update_attribute_values sc self w es object_instance_handle attribute_values user_supplied_tag =
     (if attribute_values = []
      then Raise (RTIinternalError ''No attribute values provided for update'') (self, w, es)
      else
        (case CallRequestMessage_init
                (updateAttributeValuesRequest sc object_instance_handle attribute_values
                   user_supplied_tag) of
           Inl e \<Rightarrow> Raise e (self, w, es)
         | Inr call_request_msg \<Rightarrow>
            (case send_and_wait sc (my_msg_handler self) w es (CallRequest call_request_msg)
                    (ExpTag (UPDATEATTRIBUTEVALUESRESPONSE_FIELD_NUMBER sc)) of
               Stuck \<Rightarrow> Stuck
             | Raise e (h', w', es') \<Rightarrow> Raise e (self\<lparr>my_msg_handler := h'\<rparr>, w', es')
             | Ret ok (h', w', es') \<Rightarrow>
                (if \<not> ok
                 then (if str_raises (my_fedPro_response h')
                       then Raise AttributeError (self\<lparr>my_msg_handler := h'\<rparr>, w', es')
                       else if my_poll_result h' = - 1
                       then Raise (RTIinternalError
                                     ''Failed to update attribute values, exception received'')
                              (self\<lparr>my_msg_handler := h'\<rparr>, w', es')
                       else Raise (RTIinternalError
                                     ''Failed to update attribute values due to missing/invalid response'')
                              (self\<lparr>my_msg_handler := h'\<rparr>, w', es'))
                 else Ret () (self\<lparr>my_msg_handler := h'\<rparr>, w', es')))))"

text \<open>
  \<open>evoke_callback(max_time)\<close>: queueing is switched off around one
  \<open>read_and_process\<close>, whose count is returned; \<open>False\<close> is the integer 0.  An
  exception leaving \<open>read_and_process\<close> leaves queueing switched off.
\<close>

definition evoke_callback ::
    "schema \<Rightarrow> RtiAmbassadorFedPro \<Rightarrow> world \<Rightarrow> event list
       \<Rightarrow> (int, RtiAmbassadorFedPro \<times> world \<times> event list) res" where
  "evoke_callback sc self w es =
     (if \<not> rti_is_connection_ok self then Ret 0 (self, w, es)
      else if my_enable_callback_requests (my_msg_handler self)
      then (case read_and_process sc
                   ((my_msg_handler self)\<lparr>my_queue_callback_requests := False\<rparr>) w es of
              Stuck \<Rightarrow> Stuck
            | Raise e (h', w', es') \<Rightarrow> Raise e (self\<lparr>my_msg_handler := h'\<rparr>, w', es')
            | Ret result (h', w', es') \<Rightarrow>
                Ret result
                  (self\<lparr>my_msg_handler := h'\<lparr>my_queue_callback_requests := True\<rparr>\<rparr>, w', es'))
      else Ret 0 (self, w, es))"

section \<open>Example values\<close>

text \<open>
  Concrete values for the worked examples below.  The field numbers stand in for those
  of the generated protobuf classes: exception data is field 1 of \<open>CallResponse\<close>, and
  the callbacks are numbered in the order in which they are registered.
\<close>

fun example_callback_number :: "callback_method \<Rightarrow> int" where
  "example_callback_number connection_lost = 1"
| "example_callback_number report_federation_executions = 2"
| "example_callback_number report_federation_execution_members = 3"
| "example_callback_number report_federation_execution_does_not_exist = 4"
| "example_callback_number federate_resigned = 5"
| "example_callback_number object_name_reservation_failed = 6"
| "example_callback_number object_instance_name_reservation_succeeded = 7"
| "example_callback_number discover_object_instance = 8"
| "example_callback_number remove_object_instance = 9"
| "example_callback_number reflect_attribute_values = 10"
| "example_callback_number receive_interaction = 11"
| "example_callback_number unknown_callback = - 99"

definition example_schema :: schema where
  "example_schema =
     \<lparr>EXCEPTIONDATA_FIELD_NUMBER = 1,
      GETOBJECTCLASSHANDLERESPONSE_FIELD_NUMBER = 30,
      UPDATEATTRIBUTEVALUESRESPONSE_FIELD_NUMBER = 40,
      callback_field_numbers = example_callback_number,
      new_CallbackResponse = \<lparr>ListFields = [], SerializeToString = []\<rparr>,
      getObjectClassHandleRequest =
        (\<lambda>name. \<lparr>ListFields = [29], SerializeToString = map of_char name\<rparr>),
      updateAttributeValuesRequest =
        (\<lambda>obj attrs tag. \<lparr>ListFields = [39], SerializeToString = obj @ tag\<rparr>)\<rparr>"

text \<open>
  A handler in the middle of a session: connected, its federate ambassador bound and
  the callbacks registered, session id 9, five messages received.
\<close>

definition example_handler :: FedProMsgHandler where
  "example_handler =
     FederateAmbassadorFedPro_init example_schema
       (FedProMsgHandler_init
          \<lparr>federate_ambassador_handler := Bound, my_socket_open := True,
           my_is_connection_ok := True, handler_session_id := 9,
           handler_sequence_num := 5, my_last_received_message_number := 5\<rparr>)"

definition example_ambassador :: RtiAmbassadorFedPro where
  "example_ambassador =
     RtiAmbassadorFedPro_init
       \<lparr>my_msg_handler := example_handler, rti_is_connection_ok := True\<rparr>"

definition example_world :: world where
  "example_world = \<lparr>outbox = [], amb_calls = [], amb_script = []\<rparr>"

text \<open>An inbound envelope of the given type and sequence number with a 5-byte payload.\<close>

definition example_envelope :: "MsgType \<Rightarrow> int \<Rightarrow> FedProMessage" where
  "example_envelope t n =
     \<lparr>my_msg_type = t, my_msg_size = 29, my_session_id = 9, my_sequence_num = n,
      my_last_received_msg = 5, my_payload = [0, 0, 0, 1, 8]\<rparr>"

definition example_parsed :: "int \<Rightarrow> pb_parsed" where
  "example_parsed n = \<lparr>first_field_number = n, result_data = [171], values_listed = True\<rparr>"

text \<open>The callback request built from such an envelope whose first populated field is \<open>field\<close>.\<close>

definition example_callback :: "int \<Rightarrow> int \<Rightarrow> InboundMessage" where
  "example_callback n field =
     inbound (example_envelope HLA_CALLBACK_REQUEST n) field None (Some (example_parsed field))
       UNSET"

text \<open>
  A \<open>getObjectClassHandle\<close> request for the class \<open>Ball\<close> as its constructor leaves it,
  a call response built from an example envelope, and the handler and facade after
  that request has been answered by the call response numbered 6 (handle bytes AB).
\<close>

definition example_request :: CallRequestMessage where
  "example_request =
     \<lparr>my_msg_type = HLA_CALL_REQUEST, my_msg_size = 28, my_session_id = 0,
      my_sequence_num = 0, my_last_received_msg = 0, my_payload = [],
      my_request_type = 29,
      my_request_data = getObjectClassHandleRequest example_schema ''Ball''\<rparr>"

definition example_call_response :: "int \<Rightarrow> int \<Rightarrow> InboundMessage" where
  "example_call_response n field =
     inbound (example_envelope HLA_CALL_RESPONSE n) field (Some (example_parsed field)) None
       UNSET"

definition example_handler_after_call :: FedProMsgHandler where
  "example_handler_after_call =
     example_handler
       \<lparr>my_last_received_message_number := 6,
        my_fedPro_response := example_call_response 6 30,
        handler_sequence_num := 6,
        my_poll_result := 1\<rparr>"

definition example_ambassador_after_call :: RtiAmbassadorFedPro where
  "example_ambassador_after_call =
     example_ambassador
       \<lparr>my_msg_handler := example_handler_after_call,
        my_obj_name_handles := [''Ball'' \<mapsto> [171]],
        my_obj_handle_names := [[171] \<mapsto> ''Ball''],
        my_attr_handle_names := [[171] \<mapsto> Map.empty],
        my_attr_name_handles := [[171] \<mapsto> Map.empty]\<rparr>"

section \<open>Properties of the codec\<close>

lemma be_bytes_length: "length (be_bytes n v) = n"
  by (induction n arbitrary: v) auto

text \<open>
  C9.  A freshly constructed NewSession message (protocol version 1, sequence number 0,
  session id 0) serialises to exactly the 28 bytes
  00 00 00 1C, 00 00 00 00, eight zero bytes, 00 00 00 00 00 00 00 01 (the message type
  packed as a 64-bit field) and 00 00 00 01 (the protocol version): the handshake frame of
  scenario S1.
\<close>

theorem C9_new_session_frame:
  "NewSessionMessage_to_bytes NewSessionMessage_init =
     Inr [0, 0, 0, 0x1C,  0, 0, 0, 0,  0, 0, 0, 0, 0, 0, 0, 0,
          0, 0, 0, 0,  0, 0, 0, 1,  0, 0, 0, 1]"
  by (simp add: NewSessionMessage_to_bytes_def NewSessionMessage_init_def
      FedProMessage_init_def package_bytes_def FedProMessage.extend_def
      NewSessionMessage.fields_def eval_nat_numeral)

text \<open>
  C10.  For every sequence number \<open>s\<close> (and whatever a new \<open>CallbackResponse()\<close>
  object serialises to), the frames of \<open>CallbackResponseMessage(s, True)\<close> and
  \<open>CallbackResponseMessage(s, False)\<close> are identical, also when packing fails: both
  carry the same untouched response data, and the outcome is recorded only in
  \<open>my_succeeded\<close> and \<open>my_response_type\<close> (0 and 1).
\<close>

theorem C10_callback_response_bytes_ignore_outcome:
  "CallbackResponseMessage_to_bytes (CallbackResponseMessage_init new_pb s True) =
     CallbackResponseMessage_to_bytes (CallbackResponseMessage_init new_pb s False)
   \<and> my_response_data (CallbackResponseMessage_init new_pb s True) = new_pb
   \<and> my_response_data (CallbackResponseMessage_init new_pb s False) = new_pb
   \<and> my_succeeded (CallbackResponseMessage_init new_pb s True)
   \<and> \<not> my_succeeded (CallbackResponseMessage_init new_pb s False)
   \<and> my_response_type (CallbackResponseMessage_init new_pb s True) = 0
   \<and> my_response_type (CallbackResponseMessage_init new_pb s False) = 1"
  by (simp add: CallbackResponseMessage_to_bytes_def CallbackResponseMessage_init_def
      set_response_data_def FedProMessage_init_def FedProMessage.extend_def
      CallbackResponseMessage.fields_def)

subsection \<open>Encoding and decoding the header\<close>

lemma be_int_append: "be_int (xs @ [b]) = be_int xs * 256 + uint b"
  by (simp add: be_int_def)

lemma be_int_be_bytes: "0 \<le> v \<Longrightarrow> v < 256 ^ n \<Longrightarrow> be_int (be_bytes n v) = v"
proof (induction n arbitrary: v)
  case 0
  then show ?case by (simp add: be_int_def)
next
  case (Suc n)
  have d: "0 \<le> v div 256" "v div 256 < 256 ^ n"
    using Suc.prems by (auto simp: div_less_iff_less_mult algebra_simps pos_imp_zdiv_nonneg_iff)
  have "uint (word_of_int (v mod 256) :: byte) = v mod 256"
    by (simp add: uint_word_of_int take_bit_eq_mod)
  then show ?case
    using Suc.IH [OF d] by (simp add: be_int_append)
qed

lemma be_bytes_add: "be_bytes (m + n) v = be_bytes m (v div 256 ^ n) @ be_bytes n v"
proof (induction n arbitrary: v)
  case 0
  then show ?case by simp
next
  case (Suc n)
  have "v div 256 div 256 ^ n = v div 256 ^ Suc n"
    by (simp add: zdiv_zmult2_eq)
  then show ?case using Suc.IH [of "v div 256"] by simp
qed

lemma be_bytes_8: "be_bytes 8 v = be_bytes 4 (v div 256 ^ 4) @ be_bytes 4 v"
  using be_bytes_add [of 4 4 v] by simp

lemma MsgType_int_range: "0 \<le> MsgType_int t \<and> MsgType_int t < 256 ^ 4"
  by (cases t) simp_all

text \<open>
  The message type is packed as one 64-bit field; read back as two 32-bit fields, its
  upper half lands in the last-received slot and its lower half in the type slot.
\<close>

lemma type_field:
  "be_int (take 4 (be_bytes 8 (MsgType_int t))) = 0 \<and>
   be_int (drop 4 (be_bytes 8 (MsgType_int t))) = MsgType_int t"
proof -
  have z: "MsgType_int t div 256 ^ 4 = 0"
    by (cases t) simp_all
  have "be_int (be_bytes 4 0) = 0"
    by (rule be_int_be_bytes) simp_all
  moreover have "be_int (be_bytes 4 (MsgType_int t)) = MsgType_int t"
    using MsgType_int_range [of t] by (intro be_int_be_bytes) simp_all
  ultimately show ?thesis
    using z by (simp add: be_bytes_8 be_bytes_length)
qed

lemma MsgType_of_int: "MsgType_of (MsgType_int t) = Inr t"
  by (cases t) (simp_all add: MsgType_of_def)

lemma to_bytes_Inr:
  "to_bytes m = Inr frame \<longleftrightarrow>
     (0 \<le> my_msg_size m \<and> my_msg_size m < 2 ^ 32 \<and>
      0 \<le> my_sequence_num m \<and> my_sequence_num m < 2 ^ 32 \<and>
      0 \<le> my_session_id m \<and> my_session_id m < 2 ^ 64 \<and>
      frame = be_bytes 4 (my_msg_size m) @ be_bytes 4 (my_sequence_num m) @
              be_bytes 8 (my_session_id m) @ be_bytes 8 (MsgType_int (my_msg_type m)))"
proof -
  have "0 \<le> MsgType_int (my_msg_type m) \<and> MsgType_int (my_msg_type m) < 2 ^ 64"
    by (cases "my_msg_type m") simp_all
  then show ?thesis
    by (auto simp: to_bytes_def)
qed

text \<open>
  C3, as amended.  For every envelope that \<open>to_bytes\<close> serialises (its size, sequence
  number and session id fit their fields), parsing the frame with \<open>from_bytes\<close>, into
  any message object, yields an envelope with the same message size, sequence number,
  session id and message type, and serialising that envelope again gives the same
  frame.  The frame is the 24-byte header only: the payload is not part of it, and the
  parsed payload is empty when the size field exceeds 24 and is otherwise whatever the
  receiving object held.
\<close>

theorem C3_header_roundtrip:
  assumes "to_bytes e = Inr frame"
  shows "\<exists>e'. from_bytes self (recv_segments frame) = Inr e'
     \<and> my_msg_size e' = my_msg_size e
     \<and> my_sequence_num e' = my_sequence_num e
     \<and> my_session_id e' = my_session_id e
     \<and> my_msg_type e' = my_msg_type e
     \<and> my_payload e' = (if my_msg_size e > 24 then [] else my_payload self)
     \<and> length frame = 24
     \<and> to_bytes e' = Inr frame"
proof -
  from assms have r: "0 \<le> my_msg_size e" "my_msg_size e < 2 ^ 32"
      "0 \<le> my_sequence_num e" "my_sequence_num e < 2 ^ 32"
      "0 \<le> my_session_id e" "my_session_id e < 2 ^ 64"
    and f: "frame = be_bytes 4 (my_msg_size e) @ be_bytes 4 (my_sequence_num e) @
              be_bytes 8 (my_session_id e) @ be_bytes 8 (MsgType_int (my_msg_type e))"
    by (simp_all add: to_bytes_Inr)
  have s1: "be_int (be_bytes 4 (my_msg_size e)) = my_msg_size e"
    using r by (intro be_int_be_bytes) simp_all
  have s2: "be_int (be_bytes 4 (my_sequence_num e)) = my_sequence_num e"
    using r by (intro be_int_be_bytes) simp_all
  have s3: "be_int (be_bytes 8 (my_session_id e)) = my_session_id e"
    using r by (intro be_int_be_bytes) simp_all
  note s4 = type_field [of "my_msg_type e"]
  have fb: "from_bytes self (recv_segments frame) =
     Inr (self\<lparr>my_msg_size := my_msg_size e, my_sequence_num := my_sequence_num e,
              my_session_id := my_session_id e, my_last_received_msg := 0,
              my_msg_type := my_msg_type e,
              my_payload := (if my_msg_size e > 24 then [] else my_payload self)\<rparr>)"
    by (simp add: from_bytes_def recv_segments_def f struct_unpack_def be_bytes_length
        s1 s2 s3 s4 MsgType_of_int)
  have len: "length frame = 24"
    by (simp add: f be_bytes_length)
  show ?thesis
    unfolding fb using r len by (simp add: to_bytes_Inr f)
qed

theorem C3_header_roundtrip_witness:
  "to_bytes \<lparr>my_msg_type = CTRL_HEARTBEAT, my_msg_size = 24, my_session_id = 7,
             my_sequence_num = 3, my_last_received_msg = 0, my_payload = []\<rparr>
     = Inr [0,0,0,24, 0,0,0,3, 0,0,0,0,0,0,0,7, 0,0,0,0,0,0,0,3]
   \<and> (\<exists>e'. from_bytes (FedProMessage_init UNKNOWN 24)
              (recv_segments [0,0,0,24, 0,0,0,3, 0,0,0,0,0,0,0,7, 0,0,0,0,0,0,0,3]) = Inr e'
        \<and> my_msg_size e' = 24 \<and> my_sequence_num e' = 3 \<and> my_session_id e' = 7
        \<and> my_msg_type e' = CTRL_HEARTBEAT
        \<and> to_bytes e' = Inr [0,0,0,24, 0,0,0,3, 0,0,0,0,0,0,0,7, 0,0,0,0,0,0,0,3])"
proof -
  have h: "to_bytes \<lparr>my_msg_type = CTRL_HEARTBEAT, my_msg_size = 24, my_session_id = 7,
             my_sequence_num = 3, my_last_received_msg = 0, my_payload = []\<rparr>
     = Inr [0,0,0,24, 0,0,0,3, 0,0,0,0,0,0,0,7, 0,0,0,0,0,0,0,3]"
    by code_simp
  from C3_header_roundtrip [OF h, of "FedProMessage_init UNKNOWN 24"] h show ?thesis
    by auto
qed

text \<open>
  C3 as stated fails: an envelope of size 25 with the one-byte payload 2A serialises to
  the 24 header bytes, and parsing them into a new message gives an empty payload.
\<close>

theorem C3_payload_lost_counterexample:
  "to_bytes \<lparr>my_msg_type = HLA_CALL_REQUEST, my_msg_size = 25, my_session_id = 0,
             my_sequence_num = 1, my_last_received_msg = 0, my_payload = [42]\<rparr>
     = Inr [0,0,0,25, 0,0,0,1, 0,0,0,0,0,0,0,0, 0,0,0,0,0,0,0,20]
   \<and> from_bytes (FedProMessage_init UNKNOWN 24)
         (recv_segments [0,0,0,25, 0,0,0,1, 0,0,0,0,0,0,0,0, 0,0,0,0,0,0,0,20])
     = Inr \<lparr>my_msg_type = HLA_CALL_REQUEST, my_msg_size = 25, my_session_id = 0,
            my_sequence_num = 1, my_last_received_msg = 0, my_payload = []\<rparr>
   \<and> my_payload \<lparr>my_msg_type = HLA_CALL_REQUEST, my_msg_size = 25, my_session_id = 0,
            my_sequence_num = 1, my_last_received_msg = 0, my_payload = []\<rparr>
     \<noteq> my_payload \<lparr>my_msg_type = HLA_CALL_REQUEST, my_msg_size = 25, my_session_id = 0,
             my_sequence_num = 1, my_last_received_msg = 0, my_payload = [42::byte]\<rparr>"
  by code_simp

section \<open>Properties of the message handler\<close>

subsection \<open>What sending and queueing leave unchanged\<close>

lemma send_message_Ret:
  "send_message h w r scr = Ret n (h', w') \<Longrightarrow>
     h' = h \<and> amb_calls w' = amb_calls w \<and> amb_script w' = amb_script w \<and>
     (if n = - 1 then w' = w \<and> \<not> is_connected h
      else n = 1 \<and> is_connected h \<and> outbox w' = outbox w @
        [outbound_stamp (handler_session_id h)
           (if scr then None else Some (handler_sequence_num h))
           (my_last_received_message_number h) r])"
  by (auto simp: send_message_def Let_def split: if_splits sum.splits)

lemma send_message_Raise:
  "send_message h w r scr = Raise e (h', w') \<Longrightarrow> h' = h \<and> w' = w"
  by (auto simp: send_message_def Let_def split: if_splits sum.splits)

lemma outbound_seq_stamp:
  "outbound_seq (outbound_stamp sid (Some n) l r) = n"
  by (cases r) (simp_all add: stamp_def)

lemma process_callback_request_queued:
  "my_queue_callback_requests h \<Longrightarrow>
   process_callback_request sc h w m =
     Ret False (h\<lparr>my_fedPro_response := m,
                  my_callback_request_queue := my_callback_request_queue h @ [m],
                  my_expected_response_request_number := my_sequence_num m + 1\<rparr>, w)"
  by (simp add: process_callback_request_def Let_def)

lemma handle_message_queued_Ret:
  assumes "my_queue_callback_requests h" "handle_message sc h w m p = Ret b (h', w')"
  shows "w' = w \<and> my_queue_callback_requests h' \<and>
         handler_sequence_num h' = handler_sequence_num h \<and>
         is_connected h' = is_connected h"
  using assms
  by (auto simp: handle_message_def process_new_session_status_def
      process_heartbeat_response_def process_call_response_def
      process_callback_request_queued Let_def is_connected_def
      split: if_splits sum.splits)

lemma handle_message_queued_Raise:
  assumes "my_queue_callback_requests h" "handle_message sc h w m p = Raise e (h', w')"
  shows "w' = w"
  using assms
  by (auto simp: handle_message_def process_new_session_status_def
      process_heartbeat_response_def process_call_response_def
      process_callback_request_queued Let_def
      split: if_splits sum.splits)

lemma read_loop_queued:
  "my_queue_callback_requests h \<Longrightarrow> read_loop sc h w es c = Ret n (h', w', es') \<Longrightarrow>
     w' = w \<and> my_queue_callback_requests h' \<and>
     handler_sequence_num h' = handler_sequence_num h + (n - c)"
proof (induction es arbitrary: h c)
  case Nil
  then show ?case by simp
next
  case (Cons e es)
  show ?case
  proof (cases e)
    case (Received message parsed)
    show ?thesis
    proof (cases "my_msg_type message \<noteq> INVALID \<and> my_msg_size message \<ge> 0")
      case False
      with Cons Received show ?thesis by auto
    next
      case True
      with Cons.prems Received obtain b h1 w1 where
        hm: "handle_message sc h w message parsed = Ret b (h1, w1)"
        by (auto split: res.splits)
      note q = handle_message_queued_Ret [OF Cons.prems(1) hm]
      let ?h2 = "h1\<lparr>handler_sequence_num := handler_sequence_num h1 + 1\<rparr>"
      show ?thesis
      proof (cases "is_connected ?h2 \<and> \<not> b")
        case True
        with Cons.prems Received \<open>my_msg_type message \<noteq> INVALID \<and> my_msg_size message \<ge> 0\<close> hm
        have "read_loop sc ?h2 w1 es (c + 1) = Ret n (h', w', es')"
          by (simp add: Let_def)
        with Cons.IH [of ?h2 "c + 1"] q show ?thesis by simp
      next
        case False
        with Cons.prems Received \<open>my_msg_type message \<noteq> INVALID \<and> my_msg_size message \<ge> 0\<close> hm q
        show ?thesis by (auto simp: Let_def)
      qed
    qed
  qed (use Cons in auto)
qed

lemma read_loop_queued_Raise:
  "my_queue_callback_requests h \<Longrightarrow> read_loop sc h w es c = Raise e (h', w', es') \<Longrightarrow> w' = w"
proof (induction es arbitrary: h c)
  case Nil
  then show ?case by simp
next
  case (Cons ev es)
  show ?case
  proof (cases ev)
    case (Received message parsed)
    show ?thesis
    proof (cases "my_msg_type message \<noteq> INVALID \<and> my_msg_size message \<ge> 0")
      case False
      with Cons Received show ?thesis by auto
    next
      case True
      show ?thesis
      proof (cases "handle_message sc h w message parsed")
        case (Ret b s)
        obtain h1 w1 where s: "s = (h1, w1)" by (cases s)
        note q = handle_message_queued_Ret [OF Cons.prems(1) Ret [unfolded s]]
        let ?h2 = "h1\<lparr>handler_sequence_num := handler_sequence_num h1 + 1\<rparr>"
        from Cons.prems(2) Received True Ret s
        have "is_connected ?h2 \<and> \<not> b" "read_loop sc ?h2 w1 es (c + 1) = Raise e (h', w', es')"
          by (auto simp: Let_def split: if_splits)
        with Cons.IH [of ?h2 "c + 1"] q show ?thesis by simp
      next
        case (Raise e1 s)
        obtain h1 w1 where s: "s = (h1, w1)" by (cases s)
        from handle_message_queued_Raise [OF Cons.prems(1) Raise [unfolded s]]
          Cons.prems(2) Received True Raise s
        show ?thesis by auto
      next
        case Stuck
        with Cons.prems(2) Received True show ?thesis by simp
      qed
    qed
  qed (use Cons in auto)
qed

lemma read_and_process_queued:
  assumes "my_queue_callback_requests h" "read_and_process sc h w es = Ret n (h', w', es')"
  shows "w' = w" and "0 \<le> n \<Longrightarrow> my_queue_callback_requests h'"
    and "0 \<le> n \<Longrightarrow> handler_sequence_num h' = handler_sequence_num h + n"
  using assms read_loop_queued [of h sc w es 0 n h' w' es']
    read_loop_queued_Raise [of h sc w es 0 _ h' w' es']
  by (auto simp: read_and_process_def split: if_splits res.splits)

lemma run_callback_state:
  "run_callback sc h w cm buf n = Ret u (h', w') \<Longrightarrow> h' = h"
  by (auto simp: run_callback_def guarded_callback_def send_callback_response_def
      invoke_ambassador_def Let_def
      split: if_splits option.splits prod.splits res.splits list.splits
      dest!: send_message_Ret send_message_Raise)

lemma handle_callback_request_state:
  "handle_callback_request sc h w m = Ret u (h', w') \<Longrightarrow> h' = h"
  by (auto simp: handle_callback_request_def split: option.splits dest: run_callback_state)

subsection \<open>Facts about the example values\<close>

lemma example_handler_fields:
  "federate_ambassador_handler example_handler = Bound"
  "my_enable_callback_requests example_handler"
  "my_queue_callback_requests example_handler"
  "handler_session_id example_handler = 9"
  "handler_sequence_num example_handler = 5"
  "my_last_received_message_number example_handler = 5"
  "my_callback_request_queue example_handler = []"
  "my_expected_response_type example_handler = ExpMsgType UNKNOWN"
  "my_expected_response_request_number example_handler = 0"
  "my_socket_open example_handler" "my_is_connection_ok example_handler"
  by (simp_all add: example_handler_def FederateAmbassadorFedPro_init_def
      registered_methods_def add_callback_request_callback_def FedProMsgHandler_init_def)

lemma example_handler_table:
  "my_callback_functions example_handler 1 = Some connection_lost"
  "my_callback_functions example_handler 5 = Some federate_resigned"
  "my_callback_functions example_handler 8 = Some discover_object_instance"
  by (simp_all add: example_handler_def FederateAmbassadorFedPro_init_def example_schema_def
      registered_methods_def add_callback_request_callback_def FedProMsgHandler_init_def)

lemma example_ambassador_fields:
  "my_msg_handler example_ambassador = example_handler"
  "rti_is_connection_ok example_ambassador"
  "my_obj_name_handles example_ambassador = Map.empty"
  by (simp_all add: example_ambassador_def RtiAmbassadorFedPro_init_def)

lemma example_callback_fields:
  "my_sequence_num (example_callback n f) = n"
  "my_hla_msg_type (example_callback n f) = f"
  "my_request_buf (example_callback n f) = Some (example_parsed f)"
  by (simp_all add: example_callback_def inbound_def example_envelope_def
      FedProMessage.extend_def InboundMessage.fields_def)

lemmas run_defs = read_and_process_def is_connected_def
  handle_message_def CallbackRequestMessage_init_def process_callback_request_def Let_def
  handle_callback_request_def run_callback_def invoke_ambassador_def guarded_callback_def
  send_callback_response_def send_message_def indexes_values_def
  example_envelope_def example_parsed_def inbound_def FedProMessage.extend_def
  InboundMessage.fields_def example_world_def example_callback_def
  example_handler_fields example_handler_table example_ambassador_fields

subsection \<open>Sequence numbers of outbound envelopes\<close>

text \<open>
  C2, as amended.  An outbound envelope that is not a callback response is stamped at
  send time with the handler's current sequence counter, and sending does not advance
  the counter: two such envelopes sent one after the other carry the same sequence
  number.  The counter advances in \<open>read_and_process\<close>, by one for each inbound
  message it handles: while callbacks are queued, two such envelopes with one
  \<open>read_and_process\<close> of count \<open>n\<close> between them differ by exactly \<open>n\<close>.
\<close>

theorem C2_sequence_follows_inbound_count:
  "(send_message h w r1 False = Ret 1 (h1, w1) \<and> send_message h1 w1 r2 False = Ret 1 (h2, w2)
     \<longrightarrow> (\<exists>e1 e2. outbox w2 = outbox w @ [e1, e2]
            \<and> outbound_seq e1 = handler_sequence_num h
            \<and> outbound_seq e2 = outbound_seq e1))
   \<and> (my_queue_callback_requests g \<and> send_message g v r1 False = Ret 1 (g1, v1)
       \<and> read_and_process sc g1 v1 es = Ret n (g2, v2, es2) \<and> 0 \<le> n
       \<and> send_message g2 v2 r2 False = Ret 1 (g3, v3)
     \<longrightarrow> (\<exists>e1 e2. outbox v3 = outbox v @ [e1, e2]
            \<and> outbound_seq e1 = handler_sequence_num g
            \<and> outbound_seq e2 = outbound_seq e1 + n))"
proof -
  have A: "\<exists>e1 e2. outbox w2 = outbox w @ [e1, e2]
            \<and> outbound_seq e1 = handler_sequence_num h \<and> outbound_seq e2 = outbound_seq e1"
    if a: "send_message h w r1 False = Ret 1 (h1, w1) \<and> send_message h1 w1 r2 False = Ret 1 (h2, w2)"
  proof -
    from a send_message_Ret [of h w r1 False 1 h1 w1] have 1: "h1 = h"
      "outbox w1 = outbox w @ [outbound_stamp (handler_session_id h)
         (Some (handler_sequence_num h)) (my_last_received_message_number h) r1]"
      by auto
    from a send_message_Ret [of h1 w1 r2 False 1 h2 w2] have 2:
      "outbox w2 = outbox w1 @ [outbound_stamp (handler_session_id h1)
         (Some (handler_sequence_num h1)) (my_last_received_message_number h1) r2]"
      by auto
    show ?thesis using 1 2 by (simp add: outbound_seq_stamp)
  qed
  have B: "\<exists>e1 e2. outbox v3 = outbox v @ [e1, e2]
            \<and> outbound_seq e1 = handler_sequence_num g \<and> outbound_seq e2 = outbound_seq e1 + n"
    if b: "my_queue_callback_requests g \<and> send_message g v r1 False = Ret 1 (g1, v1)
       \<and> read_and_process sc g1 v1 es = Ret n (g2, v2, es2) \<and> 0 \<le> n
       \<and> send_message g2 v2 r2 False = Ret 1 (g3, v3)"
  proof -
    from b send_message_Ret [of g v r1 False 1 g1 v1] have 1: "g1 = g"
      "outbox v1 = outbox v @ [outbound_stamp (handler_session_id g)
         (Some (handler_sequence_num g)) (my_last_received_message_number g) r1]"
      by auto
    from b 1 have q: "my_queue_callback_requests g1"
      "read_and_process sc g1 v1 es = Ret n (g2, v2, es2)" "0 \<le> n"
      by auto
    from read_and_process_queued [OF q(1) q(2)] q(3) 1
    have 2: "v2 = v1" "handler_sequence_num g2 = handler_sequence_num g + n"
      by auto
    from b send_message_Ret [of g2 v2 r2 False 1 g3 v3] have 3:
      "outbox v3 = outbox v2 @ [outbound_stamp (handler_session_id g2)
         (Some (handler_sequence_num g2)) (my_last_received_message_number g2) r2]"
      by auto
    show ?thesis using 1 2 3 by (simp add: outbound_seq_stamp)
  qed
  from A B show ?thesis by blast
qed

theorem C2_sequence_follows_inbound_count_witness:
  "send_message example_handler example_world (Heartbeat HeartbeatMessage_init) False
     = Ret 1 (example_handler,
              example_world\<lparr>outbox := [Heartbeat (stamp 9 (Some 5) 5 HeartbeatMessage_init)]\<rparr>)
   \<and> send_message example_handler
         (example_world\<lparr>outbox := [Heartbeat (stamp 9 (Some 5) 5 HeartbeatMessage_init)]\<rparr>)
         (Heartbeat HeartbeatMessage_init) False
     = Ret 1 (example_handler,
              example_world\<lparr>outbox := [Heartbeat (stamp 9 (Some 5) 5 HeartbeatMessage_init),
                                        Heartbeat (stamp 9 (Some 5) 5 HeartbeatMessage_init)]\<rparr>)
   \<and> (\<exists>e1 e2. [Heartbeat (stamp 9 (Some 5) 5 HeartbeatMessage_init),
                 Heartbeat (stamp 9 (Some 5) 5 HeartbeatMessage_init)] = [e1, e2]
         \<and> outbound_seq e1 = 5 \<and> outbound_seq e2 = outbound_seq e1)
   \<and> my_queue_callback_requests example_handler
   \<and> read_and_process example_schema example_handler
         (example_world\<lparr>outbox := [Heartbeat (stamp 9 (Some 5) 5 HeartbeatMessage_init)]\<rparr>)
         [Received (example_envelope CTRL_HEARTBEAT_RESPONSE 6) (Inl ValueError), Expired]
     = Ret 1 (example_handler
                \<lparr>my_last_received_message_number := 6,
                 my_fedPro_response :=
                   HeartbeatResponseMessage_init (example_envelope CTRL_HEARTBEAT_RESPONSE 6),
                 handler_sequence_num := 6\<rparr>,
              example_world\<lparr>outbox := [Heartbeat (stamp 9 (Some 5) 5 HeartbeatMessage_init)]\<rparr>,
              [])
   \<and> send_message
         (example_handler
            \<lparr>my_last_received_message_number := 6,
             my_fedPro_response :=
               HeartbeatResponseMessage_init (example_envelope CTRL_HEARTBEAT_RESPONSE 6),
             handler_sequence_num := 6\<rparr>)
         (example_world\<lparr>outbox := [Heartbeat (stamp 9 (Some 5) 5 HeartbeatMessage_init)]\<rparr>)
         (Heartbeat HeartbeatMessage_init) False
     = Ret 1 (example_handler
                \<lparr>my_last_received_message_number := 6,
                 my_fedPro_response :=
                   HeartbeatResponseMessage_init (example_envelope CTRL_HEARTBEAT_RESPONSE 6),
                 handler_sequence_num := 6\<rparr>,
              example_world\<lparr>outbox := [Heartbeat (stamp 9 (Some 5) 5 HeartbeatMessage_init),
                                        Heartbeat (stamp 9 (Some 6) 6 HeartbeatMessage_init)]\<rparr>)
   \<and> (\<exists>e1 e2. [Heartbeat (stamp 9 (Some 5) 5 HeartbeatMessage_init),
                 Heartbeat (stamp 9 (Some 6) 6 HeartbeatMessage_init)] = [e1, e2]
         \<and> outbound_seq e1 = 5 \<and> outbound_seq e2 = outbound_seq e1 + 1)"
proof -
  let ?hb = "Heartbeat HeartbeatMessage_init"
  let ?w1 = "example_world\<lparr>outbox := [Heartbeat (stamp 9 (Some 5) 5 HeartbeatMessage_init)]\<rparr>"
  let ?w2 = "example_world\<lparr>outbox := [Heartbeat (stamp 9 (Some 5) 5 HeartbeatMessage_init),
                                        Heartbeat (stamp 9 (Some 5) 5 HeartbeatMessage_init)]\<rparr>"
  let ?w3 = "example_world\<lparr>outbox := [Heartbeat (stamp 9 (Some 5) 5 HeartbeatMessage_init),
                                        Heartbeat (stamp 9 (Some 6) 6 HeartbeatMessage_init)]\<rparr>"
  let ?h2 = "example_handler
                \<lparr>my_last_received_message_number := 6,
                 my_fedPro_response :=
                   HeartbeatResponseMessage_init (example_envelope CTRL_HEARTBEAT_RESPONSE 6),
                 handler_sequence_num := 6\<rparr>"
  have s1: "send_message example_handler example_world ?hb False = Ret 1 (example_handler, ?w1)"
    by (simp add: run_defs stamp_def to_bytes_def HeartbeatMessage_init_def FedProMessage_init_def)
  have s2: "send_message example_handler ?w1 ?hb False = Ret 1 (example_handler, ?w2)"
    by (simp add: run_defs stamp_def to_bytes_def HeartbeatMessage_init_def FedProMessage_init_def)
  have q: "my_queue_callback_requests example_handler"
    by (simp add: example_handler_fields)
  have r: "read_and_process example_schema example_handler ?w1
         [Received (example_envelope CTRL_HEARTBEAT_RESPONSE 6) (Inl ValueError), Expired]
       = Ret 1 (?h2, ?w1, [])"
    by (simp add: run_defs process_heartbeat_response_def HeartbeatResponseMessage_init_def)
  have s3: "send_message ?h2 ?w1 ?hb False = Ret 1 (?h2, ?w3)"
    by (simp add: run_defs stamp_def to_bytes_def HeartbeatMessage_init_def FedProMessage_init_def)
  note T = C2_sequence_follows_inbound_count
    [where h = example_handler and w = example_world and ?r1.0 = ?hb and ?r2.0 = ?hb
       and ?h1.0 = example_handler and ?w1.0 = ?w1 and ?h2.0 = example_handler and ?w2.0 = ?w2
       and g = example_handler and v = example_world and ?g1.0 = example_handler and ?v1.0 = ?w1
       and sc = example_schema
       and es = "[Received (example_envelope CTRL_HEARTBEAT_RESPONSE 6) (Inl ValueError), Expired]"
       and n = 1 and ?g2.0 = ?h2 and ?v2.0 = ?w1 and ?es2.0 = "[]" and ?g3.0 = ?h2 and ?v3.0 = ?w3]
  from T s1 s2 q r s3 show ?thesis
    by (simp add: example_world_def example_handler_fields)
qed

text \<open>
  C2 as stated fails: two heartbeats sent one after the other by a connected handler
  both carry sequence number 5.
\<close>

theorem C2_equal_sequence_counterexample:
  "send_message example_handler example_world (Heartbeat HeartbeatMessage_init) False
     = Ret 1 (example_handler,
              example_world\<lparr>outbox := [Heartbeat (stamp 9 (Some 5) 5 HeartbeatMessage_init)]\<rparr>)
   \<and> send_message example_handler
         (example_world\<lparr>outbox := [Heartbeat (stamp 9 (Some 5) 5 HeartbeatMessage_init)]\<rparr>)
         (Heartbeat HeartbeatMessage_init) False
     = Ret 1 (example_handler,
              example_world\<lparr>outbox := [Heartbeat (stamp 9 (Some 5) 5 HeartbeatMessage_init),
                                        Heartbeat (stamp 9 (Some 5) 5 HeartbeatMessage_init)]\<rparr>)
   \<and> outbound_seq (Heartbeat (stamp 9 (Some 5) 5 HeartbeatMessage_init)) = 5
   \<and> \<not> outbound_seq (Heartbeat (stamp 9 (Some 5) 5 HeartbeatMessage_init))
         < outbound_seq (Heartbeat (stamp 9 (Some 5) 5 HeartbeatMessage_init))"
  by (simp add: run_defs stamp_def to_bytes_def HeartbeatMessage_init_def FedProMessage_init_def)

subsection \<open>Queueing and dispatch of callback requests\<close>

text \<open>
  C8.  While \<open>my_queue_callback_requests\<close> is true a processed callback request is only
  appended to the callback queue: the call returns \<open>False\<close> and the world (ambassador
  calls, frames sent) is untouched; the same holds for a whole \<open>read_and_process\<close>.
  When the flag is false, a callback request that is processed (the call returns) has
  been dispatched: the result is that of \<open>handle_callback_request\<close> on it, the call
  returns \<open>True\<close>, and the queue is unchanged.
\<close>

theorem C8_queued_or_dispatched:
  "(my_queue_callback_requests h \<longrightarrow>
      (\<exists>h'. process_callback_request sc h w m = Ret False (h', w)
         \<and> my_callback_request_queue h' = my_callback_request_queue h @ [m]))
   \<and> (\<not> my_queue_callback_requests h \<and> process_callback_request sc h w m = Ret b (h1, w1) \<longrightarrow>
        b \<and> my_callback_request_queue h1 = my_callback_request_queue h
          \<and> handle_callback_request sc
               (h\<lparr>my_fedPro_response := m, handler_sequence_num := my_sequence_num m\<rparr>) w m
             = Ret () (h1, w1))
   \<and> (my_queue_callback_requests h \<and> read_and_process sc h w es = Ret n (h2, w2, es2) \<longrightarrow>
        amb_calls w2 = amb_calls w \<and> outbox w2 = outbox w)"
proof -
  have A: "\<exists>h'. process_callback_request sc h w m = Ret False (h', w)
         \<and> my_callback_request_queue h' = my_callback_request_queue h @ [m]"
    if "my_queue_callback_requests h"
    using that by (simp add: process_callback_request_queued)
  let ?h = "h\<lparr>my_fedPro_response := m, handler_sequence_num := my_sequence_num m\<rparr>"
  have B: "b \<and> my_callback_request_queue h1 = my_callback_request_queue h
          \<and> handle_callback_request sc ?h w m = Ret () (h1, w1)"
    if a: "\<not> my_queue_callback_requests h \<and> process_callback_request sc h w m = Ret b (h1, w1)"
  proof -
    from a have r: "b" "handle_callback_request sc ?h w m = Ret () (h1, w1)"
      by (auto simp: process_callback_request_def Let_def
          split: if_splits handler_slot.splits res.splits)
    from handle_callback_request_state [OF r(2)] have "h1 = ?h" .
    with r show ?thesis by simp
  qed
  have C: "amb_calls w2 = amb_calls w \<and> outbox w2 = outbox w"
    if "my_queue_callback_requests h \<and> read_and_process sc h w es = Ret n (h2, w2, es2)"
    using that read_and_process_queued(1) by blast
  from A B C show ?thesis by blast
qed

theorem C8_queued_or_dispatched_witness:
  "my_queue_callback_requests example_handler
   \<and> (\<exists>h'. process_callback_request example_schema example_handler example_world
              (example_callback 42 8) = Ret False (h', example_world)
         \<and> my_callback_request_queue h' = [example_callback 42 8])
   \<and> \<not> my_queue_callback_requests (example_handler\<lparr>my_queue_callback_requests := False\<rparr>)
   \<and> process_callback_request example_schema
        (example_handler\<lparr>my_queue_callback_requests := False\<rparr>) example_world
        (example_callback 42 8)
      = Ret True
          (example_handler\<lparr>my_queue_callback_requests := False,
                           my_fedPro_response := example_callback 42 8,
                           handler_sequence_num := 42\<rparr>,
           example_world\<lparr>outbox :=
               [outbound_stamp 9 None 5
                  (CallbackResponse (CallbackResponseMessage_init
                     (new_CallbackResponse example_schema) 42 True))],
             amb_calls := [(discover_object_instance, 42)]\<rparr>)
   \<and> handle_callback_request example_schema
        (example_handler\<lparr>my_queue_callback_requests := False,
                         my_fedPro_response := example_callback 42 8,
                         handler_sequence_num := 42\<rparr>) example_world (example_callback 42 8)
      = Ret ()
          (example_handler\<lparr>my_queue_callback_requests := False,
                           my_fedPro_response := example_callback 42 8,
                           handler_sequence_num := 42\<rparr>,
           example_world\<lparr>outbox :=
               [outbound_stamp 9 None 5
                  (CallbackResponse (CallbackResponseMessage_init
                     (new_CallbackResponse example_schema) 42 True))],
             amb_calls := [(discover_object_instance, 42)]\<rparr>)
   \<and> read_and_process example_schema example_handler example_world
        [Received (example_envelope HLA_CALLBACK_REQUEST 42) (Inr (example_parsed 8)), Expired]
      = Ret 1 (example_handler
                 \<lparr>my_last_received_message_number := 42,
                  my_fedPro_response := example_callback 42 8,
                  my_callback_request_queue := [example_callback 42 8],
                  my_expected_response_request_number := 43,
                  handler_sequence_num := 6\<rparr>, example_world, [])
   \<and> amb_calls example_world = [] \<and> outbox example_world = []"
proof -
  let ?g = "example_handler\<lparr>my_queue_callback_requests := False\<rparr>"
  let ?g1 = "example_handler\<lparr>my_queue_callback_requests := False,
                           my_fedPro_response := example_callback 42 8,
                           handler_sequence_num := 42\<rparr>"
  let ?w1 = "example_world\<lparr>outbox :=
               [outbound_stamp 9 None 5
                  (CallbackResponse (CallbackResponseMessage_init
                     (new_CallbackResponse example_schema) 42 True))],
             amb_calls := [(discover_object_instance, 42)]\<rparr>"
  let ?h2 = "example_handler
                 \<lparr>my_last_received_message_number := 42,
                  my_fedPro_response := example_callback 42 8,
                  my_callback_request_queue := [example_callback 42 8],
                  my_expected_response_request_number := 43,
                  handler_sequence_num := 6\<rparr>"
  have q: "my_queue_callback_requests example_handler"
    by (simp add: example_handler_fields)
  have p: "process_callback_request example_schema ?g example_world (example_callback 42 8)
      = Ret True (?g1, ?w1)"
    apply (simp add: run_defs)
    apply (simp add: CallbackResponseMessage_to_bytes_def CallbackResponseMessage_init_def
        set_response_data_def stamp_def FedProMessage_init_def FedProMessage.extend_def
        CallbackResponseMessage.fields_def example_schema_def)
    done
  have r: "read_and_process example_schema example_handler example_world
        [Received (example_envelope HLA_CALLBACK_REQUEST 42) (Inr (example_parsed 8)), Expired]
      = Ret 1 (?h2, example_world, [])"
    by (simp add: run_defs)
  note T = C8_queued_or_dispatched
  from T [where h = example_handler and sc = example_schema and w = example_world
            and m = "example_callback 42 8"] q
  have a: "\<exists>h'. process_callback_request example_schema example_handler example_world
              (example_callback 42 8) = Ret False (h', example_world)
         \<and> my_callback_request_queue h' = [example_callback 42 8]"
    by (simp add: example_handler_fields)
  from T [where h = ?g and sc = example_schema and w = example_world
            and m = "example_callback 42 8" and b = True and ?h1.0 = ?g1 and ?w1.0 = ?w1] p
  have b: "handle_callback_request example_schema ?g1 example_world (example_callback 42 8)
      = Ret () (?g1, ?w1)"
    by (simp add: example_callback_fields)
  from a b p q r show ?thesis
    by (simp add: example_world_def)
qed

subsection \<open>Responses to delivered callbacks\<close>

text \<open>
  C4, where the code departs from it.  A \<open>connectionLost\<close> callback (field 1 in the
  example schema) arrives during \<open>evoke_callback\<close> and the user's \<open>connectionLost\<close>
  method raises: the exception leaves \<open>evoke_callback\<close>, no callback response has
  been sent, and queueing stays switched off.  The same input under the number of
  \<open>federateResigned\<close> (field 5), whose wrapper has the \<open>try\<close>, sends the failure
  response with the sequence number 6 of the request.
\<close>

theorem C4_connection_lost_raise_unanswered:
  "evoke_callback example_schema example_ambassador
     (example_world\<lparr>amb_script := [Some UserError]\<rparr>)
     [Received (example_envelope HLA_CALLBACK_REQUEST 6) (Inr (example_parsed 1)), Expired]
   = Raise UserError
       (example_ambassador\<lparr>my_msg_handler := example_handler
           \<lparr>my_queue_callback_requests := False, my_last_received_message_number := 6,
            my_fedPro_response := example_callback 6 1,
            handler_sequence_num := 6\<rparr>\<rparr>,
        example_world\<lparr>outbox := [], amb_calls := [(connection_lost, 6)], amb_script := []\<rparr>,
        [Expired])
   \<and> evoke_callback example_schema example_ambassador
     (example_world\<lparr>amb_script := [Some UserError]\<rparr>)
     [Received (example_envelope HLA_CALLBACK_REQUEST 6) (Inr (example_parsed 5)), Expired]
   = Ret 1
       (example_ambassador\<lparr>my_msg_handler := example_handler
           \<lparr>my_queue_callback_requests := True, my_last_received_message_number := 6,
            my_fedPro_response := example_callback 6 5,
            handler_sequence_num := 7\<rparr>\<rparr>,
        example_world\<lparr>outbox :=
           [outbound_stamp 9 None 6
              (CallbackResponse (CallbackResponseMessage_init
                 (new_CallbackResponse example_schema) 6 False))],
          amb_calls := [(federate_resigned, 6)], amb_script := []\<rparr>,
        [Expired])"
  apply (simp add: evoke_callback_def run_defs)
  apply (simp add: CallbackResponseMessage_to_bytes_def CallbackResponseMessage_init_def
      set_response_data_def stamp_def FedProMessage_init_def FedProMessage.extend_def
      CallbackResponseMessage.fields_def example_schema_def)
  done

text \<open>
  C5, where the code departs from it.  A \<open>discoverObjectInstance\<close> callback request
  with sequence number 42 is read while queueing is enabled and is appended to the
  callback queue.  A following \<open>evoke_callback\<close> during which nothing arrives returns 0
  with the queue as it was: no ambassador method has been called and no frame has been
  sent.  (Nothing in the sources reads \<open>my_callback_request_queue\<close>.)
\<close>

theorem C5_queued_callback_not_delivered:
  "read_and_process example_schema example_handler example_world
     [Received (example_envelope HLA_CALLBACK_REQUEST 42) (Inr (example_parsed 8)), Expired]
   = Ret 1 (example_handler
            \<lparr>my_last_received_message_number := 42,
             my_fedPro_response := example_callback 42 8,
             my_callback_request_queue := [example_callback 42 8],
             my_expected_response_request_number := 43,
             handler_sequence_num := 6\<rparr>, example_world, [])
   \<and> evoke_callback example_schema
        (example_ambassador\<lparr>my_msg_handler := example_handler
            \<lparr>my_last_received_message_number := 42,
             my_fedPro_response := example_callback 42 8,
             my_callback_request_queue := [example_callback 42 8],
             my_expected_response_request_number := 43,
             handler_sequence_num := 6\<rparr>\<rparr>)
        example_world [Timeout, Timeout, Timeout, Expired]
   = Ret 0 (example_ambassador\<lparr>my_msg_handler := example_handler
            \<lparr>my_last_received_message_number := 42,
             my_fedPro_response := example_callback 42 8,
             my_callback_request_queue := [example_callback 42 8],
             my_expected_response_request_number := 43,
             handler_sequence_num := 6,
             my_queue_callback_requests := True\<rparr>\<rparr>, example_world, [])
   \<and> amb_calls example_world = [] \<and> outbox example_world = []"
  by (simp add: evoke_callback_def run_defs)

subsection \<open>The sequence number of the accepted response\<close>

lemma handle_message_pending:
  assumes p: "pending sc resp q0 l0 h"
    and r: "resp \<noteq> ExpMsgType UNKNOWN"
        "expected_int resp \<noteq> MsgType_int CTRL_HEARTBEAT_RESPONSE"
        "EXCEPTIONDATA_FIELD_NUMBER sc \<noteq> MsgType_int CTRL_HEARTBEAT_RESPONSE"
  shows "handle_message sc h w m parsed = Ret b (h', w') \<Longrightarrow>
           (if b then accepted q0 l0 h' else pending sc resp q0 l0 h')"
    and "handle_message sc h w m parsed = Raise e (h', w') \<Longrightarrow> pending sc resp q0 l0 h'"
  using p r
  by (auto simp: handle_message_def process_new_session_status_def
      process_heartbeat_response_def process_call_response_def
      process_callback_request_queued Let_def pending_def accepted_def expected_seq_def
      HeartbeatResponseMessage_init_def inbound_def FedProMessage.extend_def
      InboundMessage.fields_def
      split: if_splits sum.splits)

lemma pending_seq_update [simp]:
  "pending sc resp q0 l0 (g\<lparr>handler_sequence_num := k\<rparr>) = pending sc resp q0 l0 g"
  by (simp add: pending_def expected_seq_def)

lemma accepted_seq_update [simp]:
  "accepted q0 l0 (g\<lparr>handler_sequence_num := k\<rparr>) = accepted q0 l0 g"
  by (simp add: accepted_def expected_seq_def)

lemma read_loop_pending:
  assumes r: "resp \<noteq> ExpMsgType UNKNOWN"
        "expected_int resp \<noteq> MsgType_int CTRL_HEARTBEAT_RESPONSE"
        "EXCEPTIONDATA_FIELD_NUMBER sc \<noteq> MsgType_int CTRL_HEARTBEAT_RESPONSE"
  shows "pending sc resp q0 l0 h \<Longrightarrow> read_loop sc h w es c = Ret n (h', w', es') \<Longrightarrow>
           pending sc resp q0 l0 h' \<or> accepted q0 l0 h'"
    and "pending sc resp q0 l0 h \<Longrightarrow> read_loop sc h w es c = Raise e (h', w', es') \<Longrightarrow>
           pending sc resp q0 l0 h'"
proof (induction es arbitrary: h w c)
  case Nil
  { case 1 then show ?case by simp }
  { case 2 then show ?case by simp }
next
  case (Cons ev es)
  { case 1
    show ?case
    proof (cases ev)
      case (Received message parsed)
      show ?thesis
      proof (cases "my_msg_type message \<noteq> INVALID \<and> my_msg_size message \<ge> 0")
        case False
        with 1 Received Cons.IH(1) show ?thesis by auto
      next
        case True
        with 1(2) Received obtain b h1 w1 where
          hm: "handle_message sc h w message parsed = Ret b (h1, w1)"
          by (auto split: res.splits)
        note st = handle_message_pending(1) [OF 1(1) r hm]
        let ?h2 = "h1\<lparr>handler_sequence_num := handler_sequence_num h1 + 1\<rparr>"
        show ?thesis
        proof (cases "is_connected ?h2 \<and> \<not> b")
          case c: True
          with 1(2) Received True hm
          have "read_loop sc ?h2 w1 es (c + 1) = Ret n (h', w', es')"
            by (simp add: Let_def)
          moreover from st c have "pending sc resp q0 l0 ?h2" by simp
          ultimately show ?thesis using Cons.IH(1) by blast
        next
          case c: False
          with 1(2) Received True hm have "h' = ?h2"
            by (auto simp: Let_def)
          with st show ?thesis by (cases b) simp_all
        qed
      qed
    qed (use 1 Cons.IH(1) in auto) }
  { case 2
    show ?case
    proof (cases ev)
      case (Received message parsed)
      show ?thesis
      proof (cases "my_msg_type message \<noteq> INVALID \<and> my_msg_size message \<ge> 0")
        case False
        with 2 Received Cons.IH(2) show ?thesis by auto
      next
        case True
        show ?thesis
        proof (cases "handle_message sc h w message parsed")
          case (Ret b s)
          obtain h1 w1 where s: "s = (h1, w1)" by (cases s)
          note st = handle_message_pending(1) [OF 2(1) r Ret [unfolded s]]
          let ?h2 = "h1\<lparr>handler_sequence_num := handler_sequence_num h1 + 1\<rparr>"
          from 2(2) Received True Ret s
          have c: "is_connected ?h2 \<and> \<not> b"
            and rl: "read_loop sc ?h2 w1 es (c + 1) = Raise e (h', w', es')"
            by (auto simp: Let_def split: if_splits)
          from st c have "pending sc resp q0 l0 ?h2" by simp
          with rl show ?thesis using Cons.IH(2) by blast
        next
          case (Raise e1 s)
          obtain h1 w1 where s: "s = (h1, w1)" by (cases s)
          from handle_message_pending(2) [OF 2(1) r Raise [unfolded s]]
            2(2) Received True Raise s
          show ?thesis by auto
        next
          case Stuck
          with 2(2) Received True show ?thesis by simp
        qed
      qed
    qed (use 2 Cons.IH(2) in auto) }
qed

lemma read_and_process_pending:
  assumes r: "resp \<noteq> ExpMsgType UNKNOWN"
        "expected_int resp \<noteq> MsgType_int CTRL_HEARTBEAT_RESPONSE"
        "EXCEPTIONDATA_FIELD_NUMBER sc \<noteq> MsgType_int CTRL_HEARTBEAT_RESPONSE"
    and p: "pending sc resp q0 l0 h"
    and rp: "read_and_process sc h w es = Ret n (h', w', es')"
  shows "(pending sc resp q0 l0 h' \<or> accepted q0 l0 h') \<and> w' = w"
proof -
  from p have q: "my_queue_callback_requests h" by (simp add: pending_def)
  have "w' = w" using read_and_process_queued(1) [OF q rp] .
  moreover have "pending sc resp q0 l0 h' \<or> accepted q0 l0 h'"
    using rp p read_loop_pending [OF r, of q0 l0 h w es 0]
    by (auto simp: read_and_process_def split: if_splits res.splits)
  ultimately show ?thesis by simp
qed

lemma accepted_got_response: "accepted q0 l0 g \<Longrightarrow> got_response sc g"
  by (simp add: accepted_def got_response_def)

lemma poll_loop_pending:
  "resp \<noteq> ExpMsgType UNKNOWN \<Longrightarrow>
   expected_int resp \<noteq> MsgType_int CTRL_HEARTBEAT_RESPONSE \<Longrightarrow>
   EXCEPTIONDATA_FIELD_NUMBER sc \<noteq> MsgType_int CTRL_HEARTBEAT_RESPONSE \<Longrightarrow>
   pending sc resp q0 l0 h \<Longrightarrow> poll_loop sc h w es = Ret ok (h', w', es') \<Longrightarrow>
     (pending sc resp q0 l0 h' \<or> accepted q0 l0 h') \<and> w' = w"
proof (induction sc h w es rule: poll_loop.induct)
  case (1 sc h w es)
  note r = "1.prems"(1,2,3)
  from "1.prems"(5) obtain n h1 w1 es1 where
    rp: "read_and_process sc h w es = Ret n (h1, w1, es1)"
    by (subst (asm) poll_loop.simps) (auto split: res.splits)
  note st = read_and_process_pending [OF r "1.prems"(4) rp]
  show ?case
  proof (cases "n \<ge> 0 \<and> \<not> got_response sc h1")
    case True
    with "1.prems"(5) rp have pl: "poll_loop sc h1 w1 es1 = Ret ok (h', w', es')"
      by (subst (asm) poll_loop.simps) simp
    from st True have "pending sc resp q0 l0 h1" and "w1 = w"
      using accepted_got_response by blast+
    with "1.IH" [OF rp refl refl True r _ pl] show ?thesis by simp
  next
    case False
    with "1.prems"(5) rp have "h' = h1" "w' = w1"
      by (subst (asm) poll_loop.simps; simp)+
    with st show ?thesis by simp
  qed
qed

lemma process_call_response_accepts:
  "process_call_response sc g v m = Ret True s \<Longrightarrow>
     my_hla_msg_type m > 1
     \<and> expected_int (my_expected_response_type g) = my_hla_msg_type m
     \<and> my_expected_response_request_number g = my_sequence_num m"
  by (auto simp: process_call_response_def Let_def split: if_splits)

lemma handle_message_clears:
  assumes "handle_message sc g v envelope parsed = Ret b (g', v')"
    and "my_expected_response_type g \<noteq> ExpMsgType UNKNOWN"
    and "my_expected_response_type g' = ExpMsgType UNKNOWN"
  shows "my_sequence_num (my_fedPro_response g') = my_expected_response_request_number g"
  using assms
  by (auto simp: handle_message_def process_new_session_status_def
      process_heartbeat_response_def process_call_response_def
      process_callback_request_def Let_def
      split: if_splits sum.splits handler_slot.splits res.splits
      dest!: handle_callback_request_state)

text \<open>
  C1, as amended.  Take a synchronous call issued through \<open>send_and_wait\<close> that
  returns \<open>True\<close>, made while callbacks are queued, whose expected response type is
  not \<open>MsgType.UNKNOWN\<close> and has an integer value other than 4, the value of
  \<open>CTRL_HEARTBEAT_RESPONSE\<close> (a plain tag 4 is excluded as well, since the heartbeat
  handler compares with \<open>==\<close>), the exception-data field number being other than 4
  too.  Then the request went out stamped with the handler's sequence counter, and the
  sequence number of the envelope accepted as the response (\<open>my_fedPro_response\<close>)
  equals the pending expected number: the last received message number at the start
  of the wait plus one, re-based to the number after each callback request queued during
  the wait.  It is not compared with the sequence number of the request.  In every
  wait, whatever the expected type: a call response is accepted only when its
  response-type tag exceeds 1 and equals the expected type and its sequence number
  equals the expected number, and an inbound envelope of any type clears the pending
  expectation only when its sequence number equals the expected number.
\<close>

theorem C1_accepted_sequence_is_expected_inbound:
  assumes q: "my_queue_callback_requests h"
    and r: "expected_response_type \<noteq> ExpMsgType UNKNOWN"
      "expected_int expected_response_type \<noteq> MsgType_int CTRL_HEARTBEAT_RESPONSE"
      "EXCEPTIONDATA_FIELD_NUMBER sc \<noteq> MsgType_int CTRL_HEARTBEAT_RESPONSE"
    and run: "send_and_wait sc h w es request expected_response_type = Ret True (h', w', es')"
  shows "outbox w' = outbox w @
           [outbound_stamp (handler_session_id h) (Some (handler_sequence_num h))
              (my_last_received_message_number h) request]
     \<and> my_sequence_num (my_fedPro_response h') =
         expected_seq (my_callback_request_queue h) (my_last_received_message_number h) h'
     \<and> (\<forall>g v m s. process_call_response sc g v m = Ret True s \<longrightarrow>
           my_hla_msg_type m > 1
           \<and> expected_int (my_expected_response_type g) = my_hla_msg_type m
           \<and> my_expected_response_request_number g = my_sequence_num m)
     \<and> (\<forall>g v envelope parsed b g' v'.
           handle_message sc g v envelope parsed = Ret b (g', v')
           \<and> my_expected_response_type g \<noteq> ExpMsgType UNKNOWN
           \<and> my_expected_response_type g' = ExpMsgType UNKNOWN \<longrightarrow>
           my_sequence_num (my_fedPro_response g') = my_expected_response_request_number g)"
proof -
  let ?q0 = "my_callback_request_queue h" and ?l0 = "my_last_received_message_number h"
  let ?hp = "h\<lparr>my_expected_response_request_number := ?l0 + 1,
               my_expected_response_type := expected_response_type\<rparr>"
  from run obtain sent h1 w1 where
    sm: "send_message h w request False = Ret sent (h1, w1)" and ns: "sent \<noteq> - 1"
    by (auto simp: send_and_wait_def split: res.splits if_splits)
  from send_message_Ret [OF sm] ns have h1: "h1 = h"
    and ob: "outbox w1 = outbox w @
           [outbound_stamp (handler_session_id h) (Some (handler_sequence_num h))
              (my_last_received_message_number h) request]"
    by (auto split: if_splits)
  from run sm ns h1 obtain pr where
    pf: "poll_for_call_response sc h w1 es expected_response_type = Ret pr (h', w', es')"
      and pr: "pr > 0"
    by (auto simp: send_and_wait_def split: res.splits if_splits)
  from pf obtain ok h2 w2 where
    pl: "poll_loop sc ?hp w1 es = Ret ok (h2, w2, es')"
      and w': "w' = w2"
      and h': "h' = h2\<lparr>my_poll_result := pr, my_expected_response_request_number := 0,
                         my_expected_response_type := ExpMsgType UNKNOWN\<rparr>"
      and prv: "pr = (if my_expected_response_type h2 = ExpTag (EXCEPTIONDATA_FIELD_NUMBER sc)
                        then - 1 else if got_response sc h2 then 1 else 0)"
    by (auto simp: poll_for_call_response_def Let_def split: res.splits)
  have p0: "pending sc expected_response_type ?q0 ?l0 ?hp"
    using q by (simp add: pending_def expected_seq_def)
  from poll_loop_pending [OF r p0 pl]
  have st: "pending sc expected_response_type ?q0 ?l0 h2 \<or> accepted ?q0 ?l0 h2" and ww: "w2 = w1"
    by simp_all
  from pr prv have u: "my_expected_response_type h2 = ExpMsgType UNKNOWN"
    by (auto simp: got_response_def split: if_splits)
  with st r(1) have "accepted ?q0 ?l0 h2"
    by (auto simp: pending_def)
  then have "my_sequence_num (my_fedPro_response h') = expected_seq ?q0 ?l0 h'"
    by (simp add: accepted_def expected_seq_def h')
  moreover have "\<forall>g v envelope parsed b g' v'.
           handle_message sc g v envelope parsed = Ret b (g', v')
           \<and> my_expected_response_type g \<noteq> ExpMsgType UNKNOWN
           \<and> my_expected_response_type g' = ExpMsgType UNKNOWN \<longrightarrow>
           my_sequence_num (my_fedPro_response g') = my_expected_response_request_number g"
    using handle_message_clears by blast
  moreover have "\<forall>g v m s. process_call_response sc g v m = Ret True s \<longrightarrow>
           my_hla_msg_type m > 1
           \<and> expected_int (my_expected_response_type g) = my_hla_msg_type m
           \<and> my_expected_response_request_number g = my_sequence_num m"
    using process_call_response_accepts by blast
  ultimately show ?thesis
    using ob w' ww by simp
qed

lemma example_schema_fields:
  "EXCEPTIONDATA_FIELD_NUMBER example_schema = 1"
  "GETOBJECTCLASSHANDLERESPONSE_FIELD_NUMBER example_schema = 30"
  "UPDATEATTRIBUTEVALUESRESPONSE_FIELD_NUMBER example_schema = 40"
  by (simp_all add: example_schema_def)

lemma example_request_init:
  "CallRequestMessage_init (getObjectClassHandleRequest example_schema ''Ball'')
     = Inr example_request"
  by (simp add: CallRequestMessage_init_def example_request_def example_schema_def
      FedProMessage_init_def FedProMessage.extend_def CallRequestMessage.fields_def)

lemma example_send:
  "send_message example_handler example_world (CallRequest example_request) False
     = Ret 1 (example_handler,
              example_world\<lparr>outbox := [CallRequest (stamp 9 (Some 5) 5 example_request)]\<rparr>)"
  by (simp add: run_defs stamp_def CallRequestMessage_to_bytes_def example_request_def)

lemma example_read:
  "read_and_process example_schema
     (example_handler\<lparr>my_expected_response_request_number := 6,
                      my_expected_response_type := ExpTag 30\<rparr>)
     (example_world\<lparr>outbox := [CallRequest (stamp 9 (Some 5) 5 example_request)]\<rparr>)
     [Received (example_envelope HLA_CALL_RESPONSE 6) (Inr (example_parsed 30))]
   = Ret 1 (example_handler
              \<lparr>my_expected_response_request_number := 0,
               my_expected_response_type := ExpMsgType UNKNOWN,
               my_last_received_message_number := 6,
               my_fedPro_response := example_call_response 6 30,
               handler_sequence_num := 6\<rparr>,
            example_world\<lparr>outbox := [CallRequest (stamp 9 (Some 5) 5 example_request)]\<rparr>,
            [])"
  by (simp add: run_defs CallResponseMessage_init_def process_call_response_def be_int_def
      example_call_response_def)

lemma example_send_and_wait:
  "send_and_wait example_schema example_handler example_world
     [Received (example_envelope HLA_CALL_RESPONSE 6) (Inr (example_parsed 30))]
     (CallRequest example_request) (ExpTag 30)
   = Ret True
       (example_handler_after_call,
        example_world\<lparr>outbox := [CallRequest (stamp 9 (Some 5) 5 example_request)]\<rparr>,
        [])"
proof -
  have pl: "poll_loop example_schema
     (example_handler\<lparr>my_expected_response_request_number := 6,
                      my_expected_response_type := ExpTag 30\<rparr>)
     (example_world\<lparr>outbox := [CallRequest (stamp 9 (Some 5) 5 example_request)]\<rparr>)
     [Received (example_envelope HLA_CALL_RESPONSE 6) (Inr (example_parsed 30))]
   = Ret True (example_handler
              \<lparr>my_expected_response_request_number := 0,
               my_expected_response_type := ExpMsgType UNKNOWN,
               my_last_received_message_number := 6,
               my_fedPro_response := example_call_response 6 30,
               handler_sequence_num := 6\<rparr>,
            example_world\<lparr>outbox := [CallRequest (stamp 9 (Some 5) 5 example_request)]\<rparr>,
            [])"
    by (subst poll_loop.simps) (simp add: example_read got_response_def example_schema_fields)
  have e: "example_handler\<lparr>my_expected_response_request_number := 0,
               my_expected_response_type := ExpMsgType UNKNOWN\<rparr> = example_handler"
    using example_handler_fields(8,9) by (cases example_handler) simp
  show ?thesis
    using e
    by (simp add: send_and_wait_def example_send poll_for_call_response_def
        example_handler_fields pl got_response_def example_schema_fields
        example_handler_after_call_def)
qed

lemma example_after_call_fields:
  "my_fedPro_response example_handler_after_call = example_call_response 6 30"
  "my_callback_request_queue example_handler_after_call = []"
  "federate_ambassador_handler example_handler_after_call = Bound"
  by (simp_all add: example_handler_after_call_def example_handler_fields)

lemma example_call_response_fields:
  "my_sequence_num (example_call_response n f) = n"
  "my_hla_msg_type (example_call_response n f) = f"
  "my_response_buf (example_call_response n f) = Some (example_parsed f)"
  by (simp_all add: example_call_response_def inbound_def example_envelope_def
      FedProMessage.extend_def InboundMessage.fields_def)

lemma example_heartbeat_step:
  "handle_message example_schema
     (example_handler\<lparr>my_expected_response_request_number := 6,
                      my_expected_response_type := ExpMsgType CTRL_HEARTBEAT_RESPONSE\<rparr>)
     example_world (example_envelope CTRL_HEARTBEAT_RESPONSE 6) (Inl ValueError)
   = Ret False
       (example_handler
          \<lparr>my_expected_response_request_number := 0,
           my_expected_response_type := ExpMsgType UNKNOWN,
           my_last_received_message_number := 6,
           my_fedPro_response :=
             HeartbeatResponseMessage_init (example_envelope CTRL_HEARTBEAT_RESPONSE 6)\<rparr>,
        example_world)"
  by (simp add: handle_message_def process_heartbeat_response_def example_envelope_def
      HeartbeatResponseMessage_init_def inbound_def FedProMessage.extend_def
      InboundMessage.fields_def Let_def)

theorem C1_accepted_sequence_is_expected_inbound_witness:
  "my_queue_callback_requests example_handler
   \<and> ExpTag 30 \<noteq> ExpMsgType UNKNOWN
   \<and> expected_int (ExpTag 30) \<noteq> MsgType_int CTRL_HEARTBEAT_RESPONSE
   \<and> EXCEPTIONDATA_FIELD_NUMBER example_schema \<noteq> MsgType_int CTRL_HEARTBEAT_RESPONSE
   \<and> send_and_wait example_schema example_handler example_world
        [Received (example_envelope HLA_CALL_RESPONSE 6) (Inr (example_parsed 30))]
        (CallRequest example_request) (ExpTag 30)
      = Ret True
          (example_handler_after_call,
           example_world\<lparr>outbox := [CallRequest (stamp 9 (Some 5) 5 example_request)]\<rparr>,
           [])
   \<and> my_sequence_num (my_fedPro_response example_handler_after_call) =
        expected_seq (my_callback_request_queue example_handler)
          (my_last_received_message_number example_handler) example_handler_after_call
   \<and> expected_seq (my_callback_request_queue example_handler)
          (my_last_received_message_number example_handler) example_handler_after_call = 6
   \<and> handle_message example_schema
        (example_handler\<lparr>my_expected_response_request_number := 6,
                         my_expected_response_type := ExpMsgType CTRL_HEARTBEAT_RESPONSE\<rparr>)
        example_world (example_envelope CTRL_HEARTBEAT_RESPONSE 6) (Inl ValueError)
      = Ret False
          (example_handler
             \<lparr>my_expected_response_request_number := 0,
              my_expected_response_type := ExpMsgType UNKNOWN,
              my_last_received_message_number := 6,
              my_fedPro_response :=
                HeartbeatResponseMessage_init (example_envelope CTRL_HEARTBEAT_RESPONSE 6)\<rparr>,
           example_world)
   \<and> my_sequence_num
        (my_fedPro_response
           (example_handler
              \<lparr>my_expected_response_request_number := 0,
               my_expected_response_type := ExpMsgType UNKNOWN,
               my_last_received_message_number := 6,
               my_fedPro_response :=
                 HeartbeatResponseMessage_init (example_envelope CTRL_HEARTBEAT_RESPONSE 6)\<rparr>))
      = my_expected_response_request_number
          (example_handler\<lparr>my_expected_response_request_number := 6,
                           my_expected_response_type := ExpMsgType CTRL_HEARTBEAT_RESPONSE\<rparr>)"
proof -
  let ?g = "example_handler\<lparr>my_expected_response_request_number := 6,
                           my_expected_response_type := ExpMsgType CTRL_HEARTBEAT_RESPONSE\<rparr>"
  let ?g' = "example_handler
             \<lparr>my_expected_response_request_number := 0,
              my_expected_response_type := ExpMsgType UNKNOWN,
              my_last_received_message_number := 6,
              my_fedPro_response :=
                HeartbeatResponseMessage_init (example_envelope CTRL_HEARTBEAT_RESPONSE 6)\<rparr>"
  have q: "my_queue_callback_requests example_handler"
    by (simp add: example_handler_fields)
  have r: "ExpTag 30 \<noteq> ExpMsgType UNKNOWN"
    "expected_int (ExpTag 30) \<noteq> MsgType_int CTRL_HEARTBEAT_RESPONSE"
    "EXCEPTIONDATA_FIELD_NUMBER example_schema \<noteq> MsgType_int CTRL_HEARTBEAT_RESPONSE"
    by (simp_all add: example_schema_def)
  note T = C1_accepted_sequence_is_expected_inbound [OF q r example_send_and_wait]
  have e: "expected_seq (my_callback_request_queue example_handler)
          (my_last_received_message_number example_handler) example_handler_after_call = 6"
    by (simp add: expected_seq_def example_handler_fields example_after_call_fields)
  have t: "my_expected_response_type ?g \<noteq> ExpMsgType UNKNOWN"
    "my_expected_response_type ?g' = ExpMsgType UNKNOWN"
    by simp_all
  from T example_heartbeat_step t
  have c: "my_sequence_num (my_fedPro_response ?g') = my_expected_response_request_number ?g"
    by blast
  from T have a: "my_sequence_num (my_fedPro_response example_handler_after_call) =
        expected_seq (my_callback_request_queue example_handler)
          (my_last_received_message_number example_handler) example_handler_after_call"
    by blast
  from a c e q r example_send_and_wait example_heartbeat_step show ?thesis
    by (intro conjI)
qed

text \<open>
  C1 as stated fails: the request goes out with the minted sequence number 5, and the
  response accepted for it carries 6, the last received number plus one.
\<close>

theorem C1_minted_sequence_counterexample:
  "send_and_wait example_schema example_handler example_world
        [Received (example_envelope HLA_CALL_RESPONSE 6) (Inr (example_parsed 30))]
        (CallRequest example_request) (ExpTag 30)
      = Ret True
          (example_handler_after_call,
           example_world\<lparr>outbox := [CallRequest (stamp 9 (Some 5) 5 example_request)]\<rparr>,
           [])
   \<and> outbound_seq (CallRequest (stamp 9 (Some 5) 5 example_request)) = 5
   \<and> my_sequence_num (my_fedPro_response example_handler_after_call) = 6
   \<and> my_sequence_num (my_fedPro_response example_handler_after_call)
        \<noteq> outbound_seq (CallRequest (stamp 9 (Some 5) 5 example_request))"
  by (simp add: example_send_and_wait example_after_call_fields example_call_response_fields
      stamp_def)


section \<open>Properties of the ambassador facade\<close>

text \<open>
  C6, as amended.  For every object instance handle and user tag,
  \<open>update_attribute_values\<close> with an empty map raises \<open>RTIinternalError\<close> with the
  message \<open>No attribute values provided for update\<close>, and nothing else happens: the
  facade, its handler (connection state, sequence counter) and the world (no frame
  sent) are as before.
\<close>

theorem C6_empty_update_raises_locally:
  "update_attribute_values sc self w es object_instance_handle [] user_supplied_tag =
     Raise (RTIinternalError ''No attribute values provided for update'') (self, w, es)"
  by (simp add: update_attribute_values_def)

text \<open>C6 as stated fails on the error kind: the error raised is not \<open>NoAttributesProvided\<close>.\<close>

theorem C6_error_kind_counterexample:
  "update_attribute_values example_schema example_ambassador example_world [] [1] [] []
     = Raise (RTIinternalError ''No attribute values provided for update'')
         (example_ambassador, example_world, [])
   \<and> update_attribute_values example_schema example_ambassador example_world [] [1] [] []
     \<noteq> Raise NoAttributesProvided (example_ambassador, example_world, [])"
  by (simp add: update_attribute_values_def)

text \<open>
  C7.  Whenever \<open>get_object_class_handle(name)\<close> returns a handle, a second call with
  the same name returns the same handle whatever the transport would deliver, and
  changes neither the facade nor the world: no frame is sent and no event is read.  The
  forward cache holds the handle, and when the first call found no cached entry it has
  also written the reverse entry.
\<close>

theorem C7_second_lookup_served_from_cache:
  assumes "get_object_class_handle sc self w es name = Ret handle (self', w', es')"
  shows "get_object_class_handle sc self' w2 es2 name = Ret handle (self', w2, es2)
     \<and> my_obj_name_handles self' name = Some handle
     \<and> (my_obj_name_handles self name = None \<longrightarrow> my_obj_handle_names self' handle = Some name)"
  using assms
  by (auto simp: get_object_class_handle_def Let_def
      split: option.splits sum.splits res.splits if_splits)

lemma example_parsed_fields:
  "first_field_number (example_parsed n) = n"
  "result_data (example_parsed n) = [171]"
  by (simp_all add: example_parsed_def)

lemma example_ambassador_maps:
  "my_obj_handle_names example_ambassador = Map.empty"
  "my_attr_handle_names example_ambassador = Map.empty"
  "my_attr_name_handles example_ambassador = Map.empty"
  by (simp_all add: example_ambassador_def RtiAmbassadorFedPro_init_def)

lemma example_lookup:
  "get_object_class_handle example_schema example_ambassador example_world
     [Received (example_envelope HLA_CALL_RESPONSE 6) (Inr (example_parsed 30))] ''Ball''
   = Ret [171]
       (example_ambassador_after_call,
        example_world\<lparr>outbox := [CallRequest (stamp 9 (Some 5) 5 example_request)]\<rparr>,
        [])"
  by (simp add: get_object_class_handle_def example_ambassador_fields example_request_init
      example_send_and_wait example_after_call_fields example_call_response_fields
      example_ambassador_after_call_def example_schema_fields example_parsed_fields
      example_ambassador_maps Let_def)

theorem C7_second_lookup_served_from_cache_witness:
  "get_object_class_handle example_schema example_ambassador example_world
     [Received (example_envelope HLA_CALL_RESPONSE 6) (Inr (example_parsed 30))] ''Ball''
   = Ret [171]
       (example_ambassador_after_call,
        example_world\<lparr>outbox := [CallRequest (stamp 9 (Some 5) 5 example_request)]\<rparr>,
        [])
   \<and> get_object_class_handle example_schema example_ambassador_after_call
       (example_world\<lparr>outbox := [CallRequest (stamp 9 (Some 5) 5 example_request)]\<rparr>)
       [] ''Ball''
   = Ret [171]
       (example_ambassador_after_call,
        example_world\<lparr>outbox := [CallRequest (stamp 9 (Some 5) 5 example_request)]\<rparr>,
        [])
   \<and> my_obj_name_handles example_ambassador ''Ball'' = None
   \<and> my_obj_name_handles example_ambassador_after_call ''Ball'' = Some [171]
   \<and> my_obj_handle_names example_ambassador_after_call [171] = Some ''Ball''"
  using C7_second_lookup_served_from_cache [OF example_lookup,
      of "example_world\<lparr>outbox := [CallRequest (stamp 9 (Some 5) 5 example_request)]\<rparr>" "[]"]
    example_lookup
  by (simp add: example_ambassador_fields)

end
